theory Spec2Isabelle
  imports Main
begin

section \<open>The Dashboard API as seen by deploydevices.py\<close>

text \<open>
  The script talks to the Dashboard over HTTP with the Requests module. A decoded JSON
  object (a Python dict) is the list of its items, read with \<open>map_of\<close>; a decoded body
  is a JSON array of objects or a single object. Leaf values are strings.
\<close>

type_synonym jrec = "(string \<times> string) list"

datatype json = JList "jrec list" | JDict jrec

record response =
  status_code :: nat
  json :: json

text \<open>
  The URL of a request, one constructor for each URL pattern of the script:
  \<^item> \<open>Organizations\<close>: \<^verbatim>\<open>https://dashboard.meraki.com/api/v0/organizations\<close>
  \<^item> \<open>OrgSnmp org\<close>: \<^verbatim>\<open>https://dashboard.meraki.com/api/v0/organizations/%s/snmp\<close>
  \<^item> \<open>OrgNetworks shard org\<close>: \<^verbatim>\<open>https://%s/api/v0/organizations/%s/networks\<close>
  \<^item> \<open>OrgConfigTemplates shard org\<close>: \<^verbatim>\<open>https://%s/api/v0/organizations/%s/configTemplates\<close>
  \<^item> \<open>NetworkBind shard nw\<close>: \<^verbatim>\<open>https://%s/api/v0/networks/%s/bind\<close>
  \<^item> \<open>OrgClaim shard org\<close>: \<^verbatim>\<open>https://%s/api/v0/organizations/%s/claim\<close>
  \<^item> \<open>NetworkDevicesClaim shard nw\<close>: \<^verbatim>\<open>https://%s/api/v0/networks/%s/devices/claim\<close>
  \<^item> \<open>NetworkDevice shard nw serial\<close>: \<^verbatim>\<open>https://%s/api/v0/networks/%s/devices/%s\<close>
  \<^item> \<open>OrgInventory shard org\<close>: \<^verbatim>\<open>https://%s/api/v0/organizations/%s/inventory\<close>
\<close>

datatype url =
    Organizations
  | OrgSnmp string
  | OrgNetworks string string
  | OrgConfigTemplates string string
  | NetworkBind string string
  | OrgClaim string string
  | NetworkDevicesClaim string string
  | NetworkDevice string string string
  | OrgInventory string string

datatype verb = GET | POST | PUT

text \<open>
  A request: method, URL, the dict given to \<^verbatim>\<open>json.dumps\<close> as \<^verbatim>\<open>data\<close> (empty for a
  GET) and the value of the header \<^verbatim>\<open>X-Cisco-Meraki-API-Key\<close>.
\<close>

record request =
  meth :: verb
  endpoint :: url
  data :: jrec
  header_key :: string

text \<open>
  How the script can stop before its last line: \<^verbatim>\<open>sys.exit(n)\<close>, or an exception that
  nothing catches (a missing key, a subscript on a value of the wrong shape, an index out
  of range).
\<close>

datatype abort = SysExit nat | KeyError | TypeError | IndexError

text \<open>
  The state of a run: the state of the Dashboard (of any type \<open>'w\<close>), the requests sent
  so far and the lines printed so far. The Dashboard itself is a parameter
  \<open>srv :: 'w \<Rightarrow> request \<Rightarrow> response \<times> 'w\<close> of every function that sends a request.
\<close>

record 'w session =
  cloud :: 'w
  sent :: "request list"
  stdout :: "string list"

type_synonym ('w, 'a) script = "'w session \<Rightarrow> (abort + 'a) \<times> 'w session"

definition ret :: "'a \<Rightarrow> ('w, 'a) script" where
  "ret x = (\<lambda>\<sigma>. (Inr x, \<sigma>))"

definition throw :: "abort \<Rightarrow> ('w, 'a) script" where
  "throw e = (\<lambda>\<sigma>. (Inl e, \<sigma>))"

definition sys_exit :: "nat \<Rightarrow> ('w, 'a) script" where
  "sys_exit n = throw (SysExit n)"

definition lift :: "abort + 'a \<Rightarrow> ('w, 'a) script" where
  "lift r = (\<lambda>\<sigma>. (r, \<sigma>))"

definition andthen :: "('w, 'a) script \<Rightarrow> ('a \<Rightarrow> ('w, 'b) script) \<Rightarrow> ('w, 'b) script" where
  "andthen m f = (\<lambda>\<sigma>. case m \<sigma> of (Inl e, \<sigma>') \<Rightarrow> (Inl e, \<sigma>') | (Inr x, \<sigma>') \<Rightarrow> f x \<sigma>')"

text \<open>
  Sending a request: the Dashboard answers from its state and moves to its next state, and
  the request is added to those sent. \<open>reply\<close> is the answer and \<open>after\<close> the state of
  the run once the request is sent.
\<close>

definition reply :: "('w \<Rightarrow> request \<Rightarrow> response \<times> 'w) \<Rightarrow> request \<Rightarrow> 'w session \<Rightarrow> response" where
  "reply srv rq \<sigma> = fst (srv (cloud \<sigma>) rq)"

definition after :: "('w \<Rightarrow> request \<Rightarrow> response \<times> 'w) \<Rightarrow> request \<Rightarrow> 'w session \<Rightarrow> 'w session" where
  "after srv rq \<sigma> = \<sigma>\<lparr>cloud := snd (srv (cloud \<sigma>) rq), sent := sent \<sigma> @ [rq]\<rparr>"

definition send :: "('w \<Rightarrow> request \<Rightarrow> response \<times> 'w) \<Rightarrow> request \<Rightarrow> ('w, response) script" where
  "send srv rq = (\<lambda>\<sigma>. (Inr (reply srv rq \<sigma>), after srv rq \<sigma>))"

definition requests_get ::
  "('w \<Rightarrow> request \<Rightarrow> response \<times> 'w) \<Rightarrow> url \<Rightarrow> string \<Rightarrow> ('w, response) script" where
  "requests_get srv u key = send srv \<lparr>meth = GET, endpoint = u, data = [], header_key = key\<rparr>"

definition requests_post ::
  "('w \<Rightarrow> request \<Rightarrow> response \<times> 'w) \<Rightarrow> url \<Rightarrow> jrec \<Rightarrow> string \<Rightarrow> ('w, response) script" where
  "requests_post srv u d key = send srv \<lparr>meth = POST, endpoint = u, data = d, header_key = key\<rparr>"

definition requests_put ::
  "('w \<Rightarrow> request \<Rightarrow> response \<times> 'w) \<Rightarrow> url \<Rightarrow> jrec \<Rightarrow> string \<Rightarrow> ('w, response) script" where
  "requests_put srv u d key = send srv \<lparr>meth = PUT, endpoint = u, data = d, header_key = key\<rparr>"

text \<open>\<^verbatim>\<open>requests.codes.ok\<close>\<close>

definition codes_ok :: nat where
  "codes_ok = 200"

text \<open>\<^verbatim>\<open>d[k]\<close> on a dict.\<close>

definition getitem :: "jrec \<Rightarrow> string \<Rightarrow> abort + string" where
  "getitem d k = (case map_of d k of None \<Rightarrow> Inl KeyError | Some v \<Rightarrow> Inr v)"

text \<open>\<^verbatim>\<open>rjson[k]\<close> on a decoded body: a list cannot be subscripted by a string.\<close>

definition subscript :: "json \<Rightarrow> string \<Rightarrow> abort + string" where
  "subscript j k = (case j of JList rs \<Rightarrow> Inl TypeError | JDict d \<Rightarrow> getitem d k)"

text \<open>
  \<^verbatim>\<open>for record in rjson\<close>, where every loop of the script subscripts \<^verbatim>\<open>record\<close> by a
  string first: over an array, the records; over an object, its keys, which are strings
  and cannot be subscripted by a string, so any object but the empty one raises.
\<close>

definition records :: "json \<Rightarrow> abort + jrec list" where
  "records j = (case j of JList rs \<Rightarrow> Inr rs | JDict [] \<Rightarrow> Inr [] | JDict (kv # d) \<Rightarrow> Inl TypeError)"

section \<open>The helper functions of the script\<close>

definition printusertext :: "string \<Rightarrow> ('w, unit) script" where
  "printusertext p_message = (\<lambda>\<sigma>. (Inr (), \<sigma>\<lparr>stdout := stdout \<sigma> @ [''@ '' @ p_message]\<rparr>))"

definition helptext :: "string list" where
  "helptext =
    [''This is a script to claim MR, MS and MX devices into Dashboard, create a new network for them'',
     '' and bind the network to a pre-existing template. The script can also claim license capacity.'',
     '''',
     ''To run the script, enter:'',
     ''python deploydevices.py -k <key> -o <org> -s <sn> -n <netw> -c <cfg_tmpl> [-t <tags>] [-a <addr>] [-m ignore_error]'',
     '''',
     ''<key>: Your Meraki Dashboard API key'',
     ''<org>: Name of the Meraki Dashboard Organization to modify'',
     ''<sn>: Serial number of the devices to claim. Use double quotes and spaces to enter'',
     ''       multiple serial numbers. Example: -s \"AAAA-BBBB-CCCC DDDD-EEEE-FFFF\"'',
     ''       You can also enter a license key as a serial number to claim along with devices'',
     ''<netw>: Name the new network will have'',
     ''<cfg_template>: Name of the config template the new network will bound to'',
     ''-t <tags>: Optional parameter. If defined, network will be tagged with the given tags'',
     ''-a <addr>: Optional parameter. If defined, devices will be moved to given street address'',
     ''-m ignore_error: Optional parameter. If defined, the script will not stop if network exists'',
     '''',
     ''Example:'',
     ''python deploydevices.py -k 1234 -o MyCustomer -s XXXX-YYYY-ZZZZ -n \"SF Branch\" -c MyCfgTemplate'',
     '''',
     ''Use double quotes (\"\") in Windows to pass arguments containing spaces. Names are case-sensitive.'']"

fun printlines :: "string list \<Rightarrow> ('w, unit) script" where
  "printlines [] = ret ()"
| "printlines (l # ls) = andthen (printusertext l) (\<lambda>_. printlines ls)"

definition printhelp :: "('w, unit) script" where
  "printhelp = printlines helptext"

text \<open>
  The loop shared by \<^verbatim>\<open>getorgid\<close>, \<^verbatim>\<open>getnwid\<close> and \<^verbatim>\<open>gettemplateid\<close>:
  \<^verbatim>\<open>for record in rjson: if record['name'] == p_name: return record['id']\<close>, then
  \<^verbatim>\<open>return('null')\<close>.
\<close>

fun id_of_name :: "jrec list \<Rightarrow> string \<Rightarrow> abort + string" where
  "id_of_name [] p_name = Inr ''null''"
| "id_of_name (record # rjson) p_name =
     (case getitem record ''name'' of
        Inl e \<Rightarrow> Inl e
      | Inr n \<Rightarrow> if n = p_name then getitem record ''id'' else id_of_name rjson p_name)"

definition scan_id :: "json \<Rightarrow> string \<Rightarrow> abort + string" where
  "scan_id rjson p_name =
     (case records rjson of Inl e \<Rightarrow> Inl e | Inr rs \<Rightarrow> id_of_name rs p_name)"

definition getorgid ::
  "('w \<Rightarrow> request \<Rightarrow> response \<times> 'w) \<Rightarrow> string \<Rightarrow> string \<Rightarrow> ('w, string) script" where
  "getorgid srv p_apikey p_orgname =
     andthen (requests_get srv Organizations p_apikey) (\<lambda>r.
       if status_code r \<noteq> codes_ok then ret ''null''
       else lift (scan_id (json r) p_orgname))"

definition getshardurl ::
  "('w \<Rightarrow> request \<Rightarrow> response \<times> 'w) \<Rightarrow> string \<Rightarrow> string \<Rightarrow> ('w, string) script" where
  "getshardurl srv p_apikey p_orgid =
     andthen (requests_get srv (OrgSnmp p_orgid) p_apikey) (\<lambda>r.
       if status_code r \<noteq> codes_ok then ret ''null''
       else lift (subscript (json r) ''hostname''))"

definition getnwid ::
  "('w \<Rightarrow> request \<Rightarrow> response \<times> 'w) \<Rightarrow> string \<Rightarrow> string \<Rightarrow> string \<Rightarrow> string \<Rightarrow>
   ('w, string) script" where
  "getnwid srv p_apikey p_shardurl p_orgid p_nwname =
     andthen (requests_get srv (OrgNetworks p_shardurl p_orgid) p_apikey) (\<lambda>r.
       if status_code r \<noteq> codes_ok then ret ''null''
       else lift (scan_id (json r) p_nwname))"

text \<open>
  \<^verbatim>\<open>createnw\<close> reads the keys name, type, timeZone and tags of \<^verbatim>\<open>p_nwdata\<close>, in the
  order below; the only caller passes a dict that has them all.
\<close>

definition createnw ::
  "('w \<Rightarrow> request \<Rightarrow> response \<times> 'w) \<Rightarrow> string \<Rightarrow> string \<Rightarrow> string \<Rightarrow> jrec \<Rightarrow>
   ('w, string) script" where
  "createnw srv p_apikey p_shardurl p_dstorg p_nwdata =
     andthen (lift (getitem p_nwdata ''name'')) (\<lambda>name.
     andthen (getnwid srv p_apikey p_shardurl p_dstorg name) (\<lambda>getnwresult.
       if getnwresult \<noteq> ''null'' then
         andthen (printusertext (''WARNING: Skipping network \"'' @ name @ ''\" (Already exists)''))
           (\<lambda>_. ret ''null'')
       else
         andthen (lift (getitem p_nwdata ''type'')) (\<lambda>ty.
         let nwtype = (if ty = ''combined'' then ''wireless switch appliance'' else ty) in
         if nwtype \<noteq> ''systems manager'' then
           andthen (lift (getitem p_nwdata ''timeZone'')) (\<lambda>tz.
           andthen (lift (getitem p_nwdata ''tags'')) (\<lambda>tags.
           andthen (requests_post srv (OrgNetworks p_shardurl p_dstorg)
                      [(''timeZone'', tz), (''tags'', tags), (''name'', name),
                       (''organizationId'', p_dstorg), (''type'', nwtype)] p_apikey) (\<lambda>r.
           ret ''ok'')))
         else
           andthen (printusertext (''WARNING: Skipping network \"'' @ name @ ''\" (Cannot create SM networks)''))
             (\<lambda>_. ret ''null''))))"

definition gettemplateid ::
  "('w \<Rightarrow> request \<Rightarrow> response \<times> 'w) \<Rightarrow> string \<Rightarrow> string \<Rightarrow> string \<Rightarrow> string \<Rightarrow>
   ('w, string) script" where
  "gettemplateid srv p_apikey p_shardurl p_orgid p_tname =
     andthen (requests_get srv (OrgConfigTemplates p_shardurl p_orgid) p_apikey) (\<lambda>r.
       if status_code r \<noteq> codes_ok then ret ''null''
       else lift (scan_id (json r) p_tname))"

definition bindnw ::
  "('w \<Rightarrow> request \<Rightarrow> response \<times> 'w) \<Rightarrow> string \<Rightarrow> string \<Rightarrow> string \<Rightarrow> string \<Rightarrow> bool \<Rightarrow>
   ('w, string) script" where
  "bindnw srv p_apikey p_shardurl p_nwid p_templateid p_autobind =
     (let autobindvalue = (if p_autobind then ''true'' else ''false'') in
      andthen (requests_post srv (NetworkBind p_shardurl p_nwid)
                 [(''configTemplateId'', p_templateid), (''autoBind'', autobindvalue)] p_apikey) (\<lambda>r.
        if status_code r \<noteq> codes_ok then ret ''null'' else ret ''ok''))"

definition claimdeviceorg ::
  "('w \<Rightarrow> request \<Rightarrow> response \<times> 'w) \<Rightarrow> string \<Rightarrow> string \<Rightarrow> string \<Rightarrow> string \<Rightarrow>
   ('w, nat) script" where
  "claimdeviceorg srv p_apikey p_shardurl p_orgid p_devserial =
     andthen (requests_post srv (OrgClaim p_shardurl p_orgid) [(''serial'', p_devserial)] p_apikey)
       (\<lambda>r. ret 0)"

definition claimlicenseorg ::
  "('w \<Rightarrow> request \<Rightarrow> response \<times> 'w) \<Rightarrow> string \<Rightarrow> string \<Rightarrow> string \<Rightarrow> string \<Rightarrow>
   ('w, nat) script" where
  "claimlicenseorg srv p_apikey p_shardurl p_orgid p_licensekey =
     andthen (requests_post srv (OrgClaim p_shardurl p_orgid)
                [(''licenseKey'', p_licensekey), (''licenseMode'', ''addDevices'')] p_apikey)
       (\<lambda>r. ret 0)"

definition claimdevice ::
  "('w \<Rightarrow> request \<Rightarrow> response \<times> 'w) \<Rightarrow> string \<Rightarrow> string \<Rightarrow> string \<Rightarrow> string \<Rightarrow>
   ('w, nat) script" where
  "claimdevice srv p_apikey p_shardurl p_nwid p_devserial =
     andthen (requests_post srv (NetworkDevicesClaim p_shardurl p_nwid)
                [(''serial'', p_devserial)] p_apikey)
       (\<lambda>r. ret 0)"

definition getdeviceinfo ::
  "('w \<Rightarrow> request \<Rightarrow> response \<times> 'w) \<Rightarrow> string \<Rightarrow> string \<Rightarrow> string \<Rightarrow> string \<Rightarrow>
   ('w, json) script" where
  "getdeviceinfo srv p_apikey p_shardurl p_nwid p_serial =
     andthen (requests_get srv (NetworkDevice p_shardurl p_nwid p_serial) p_apikey) (\<lambda>r.
       if status_code r \<noteq> codes_ok then ret (JDict [(''serial'', ''null''), (''model'', ''null'')])
       else ret (json r))"

definition setdevicedata ::
  "('w \<Rightarrow> request \<Rightarrow> response \<times> 'w) \<Rightarrow> string \<Rightarrow> string \<Rightarrow> string \<Rightarrow> string \<Rightarrow> string \<Rightarrow>
   string \<Rightarrow> bool \<Rightarrow> ('w, string) script" where
  "setdevicedata srv p_apikey p_shardurl p_nwid p_devserial p_field p_value p_movemarker =
     (let movevalue = (if p_movemarker then ''true'' else ''false'') in
      andthen (requests_put srv (NetworkDevice p_shardurl p_nwid p_devserial)
                 [(p_field, p_value), (''moveMapMarker'', movevalue)] p_apikey) (\<lambda>r.
        if status_code r \<noteq> codes_ok then ret ''null'' else ret ''ok''))"

text \<open>
  The loop of \<^verbatim>\<open>getorgdeviceinfo\<close> does not stop at the first match: it reads the serial
  of every record, and the last record with the serial asked for is the one returned.
  \<open>returnvalue\<close> is \<open>None\<close> while \<^verbatim>\<open>foundserial\<close> is false. A record with that serial
  is copied key by key (\<open>inventory_record\<close>), which raises when one of the six keys is
  missing.
\<close>

definition inventory_record :: "jrec \<Rightarrow> abort + jrec" where
  "inventory_record record =
     (case (getitem record ''mac'', getitem record ''serial'', getitem record ''networkId'',
            getitem record ''model'', getitem record ''claimedAt'', getitem record ''publicIp'') of
        (Inr mac, Inr serial, Inr networkId, Inr model, Inr claimedAt, Inr publicIp) \<Rightarrow>
          Inr [(''mac'', mac), (''serial'', serial), (''networkId'', networkId),
               (''model'', model), (''claimedAt'', claimedAt), (''publicIp'', publicIp)]
      | _ \<Rightarrow> Inl KeyError)"

fun inventory_loop :: "jrec list \<Rightarrow> string \<Rightarrow> jrec option \<Rightarrow> abort + jrec option" where
  "inventory_loop [] p_devserial returnvalue = Inr returnvalue"
| "inventory_loop (record # rjson) p_devserial returnvalue =
     (case getitem record ''serial'' of
        Inl e \<Rightarrow> Inl e
      | Inr s \<Rightarrow>
          if s = p_devserial then
            (case inventory_record record of
               Inl e \<Rightarrow> Inl e
             | Inr d \<Rightarrow> inventory_loop rjson p_devserial (Some d))
          else inventory_loop rjson p_devserial returnvalue)"

definition getorgdeviceinfo ::
  "('w \<Rightarrow> request \<Rightarrow> response \<times> 'w) \<Rightarrow> string \<Rightarrow> string \<Rightarrow> string \<Rightarrow> string \<Rightarrow>
   ('w, jrec) script" where
  "getorgdeviceinfo srv p_apikey p_shardurl p_orgid p_devserial =
     andthen (requests_get srv (OrgInventory p_shardurl p_orgid) p_apikey) (\<lambda>r.
       if status_code r \<noteq> codes_ok then ret [(''serial'', ''null''), (''model'', ''null'')]
       else
         andthen (lift (records (json r))) (\<lambda>rjson.
         andthen (lift (inventory_loop rjson p_devserial None)) (\<lambda>found.
           case found of
             None \<Rightarrow> ret [(''serial'', ''null''), (''model'', ''null'')]
           | Some returnvalue \<Rightarrow> ret returnvalue)))"

section \<open>The main function\<close>

text \<open>
  \<^verbatim>\<open>main\<close> is one long function body. It is written here as the sequence of its parts, each
  a definition of its own named \<open>main_...\<close>, so that the claims about one part of a run can
  be stated about that part.
\<close>

record arguments =
  arg_apikey :: string
  arg_orgname :: string
  arg_serial :: string
  arg_nwname :: string
  arg_template :: string
  arg_modexisting :: string
  arg_address :: string
  arg_nwtags :: string

definition default_arguments :: arguments where
  "default_arguments =
     \<lparr>arg_apikey = ''null'', arg_orgname = ''null'', arg_serial = ''null'', arg_nwname = ''null'',
      arg_template = ''null'', arg_modexisting = ''null'', arg_address = ''null'',
      arg_nwtags = ''null''\<rparr>"

text \<open>
  \<^verbatim>\<open>for opt, arg in opts\<close>, over the option list that \<^verbatim>\<open>getopt.getopt\<close> returns;
  \<^verbatim>\<open>sys.exit()\<close> without an argument is exit status 0.
\<close>

fun main_opts :: "(string \<times> string) list \<Rightarrow> arguments \<Rightarrow> ('w, arguments) script" where
  "main_opts [] a = ret a"
| "main_opts ((opt, arg) # opts) a =
     (if opt = ''-h'' then andthen printhelp (\<lambda>_. sys_exit 0)
      else if opt = ''-k'' then main_opts opts (a\<lparr>arg_apikey := arg\<rparr>)
      else if opt = ''-o'' then main_opts opts (a\<lparr>arg_orgname := arg\<rparr>)
      else if opt = ''-s'' then main_opts opts (a\<lparr>arg_serial := arg\<rparr>)
      else if opt = ''-n'' then main_opts opts (a\<lparr>arg_nwname := arg\<rparr>)
      else if opt = ''-c'' then main_opts opts (a\<lparr>arg_template := arg\<rparr>)
      else if opt = ''-m'' then main_opts opts (a\<lparr>arg_modexisting := arg\<rparr>)
      else if opt = ''-a'' then main_opts opts (a\<lparr>arg_address := arg\<rparr>)
      else if opt = ''-t'' then main_opts opts (a\<lparr>arg_nwtags := arg\<rparr>)
      else main_opts opts a)"

text \<open>\<^verbatim>\<open>str.split(" ")\<close>: every single space separates, so two spaces in a row give an empty word.\<close>

fun split_space :: "string \<Rightarrow> string list" where
  "split_space [] = [[]]"
| "split_space (c # cs) =
     (if c = CHR '' '' then [] # split_space cs
      else (case split_space cs of [] \<Rightarrow> [[c]] | w # ws \<Rightarrow> (c # w) # ws))"

text \<open>
  Lines 301 to 309, the body of the loop over the serials: claim the serial into the
  organization, look it up in the inventory, claim it as a license when the lookup gives
  serial \<open>null\<close>; the value is the model that is appended to \<^verbatim>\<open>devicelist['model']\<close>.
\<close>

definition main_claim_serial ::
  "('w \<Rightarrow> request \<Rightarrow> response \<times> 'w) \<Rightarrow> string \<Rightarrow> string \<Rightarrow> string \<Rightarrow> string \<Rightarrow>
   ('w, string) script" where
  "main_claim_serial srv apikey shardurl orgid serial =
     andthen (claimdeviceorg srv apikey shardurl orgid serial) (\<lambda>_.
     andthen (getorgdeviceinfo srv apikey shardurl orgid serial) (\<lambda>deviceinfo.
     andthen (lift (getitem deviceinfo ''serial'')) (\<lambda>s.
     andthen (if s = ''null'' then
                andthen (printusertext (''INFO: Serial number '' @ serial @
                                        '' is a license or unsupported device'')) (\<lambda>_.
                andthen (claimlicenseorg srv apikey shardurl orgid serial) (\<lambda>_. ret ()))
              else ret ()) (\<lambda>_.
     lift (getitem deviceinfo ''model'')))))"

fun main_claim_serials ::
  "('w \<Rightarrow> request \<Rightarrow> response \<times> 'w) \<Rightarrow> string \<Rightarrow> string \<Rightarrow> string \<Rightarrow> string list \<Rightarrow>
   string list \<Rightarrow> ('w, string list) script" where
  "main_claim_serials srv apikey shardurl orgid [] models = ret models"
| "main_claim_serials srv apikey shardurl orgid (serial # serials) models =
     andthen (main_claim_serial srv apikey shardurl orgid serial) (\<lambda>model.
       main_claim_serials srv apikey shardurl orgid serials (models @ [model]))"

text \<open>Lines 312 to 319: the dict \<^verbatim>\<open>devicetypes\<close> and the loop that fills it.\<close>

record devicetypes =
  mx :: bool
  ms :: bool
  mr :: bool

definition devicetypes_record :: "string \<Rightarrow> devicetypes \<Rightarrow> devicetypes" where
  "devicetypes_record record dt =
     (if take 2 record = ''MX'' \<or> take 2 record = ''Z1'' then dt\<lparr>mx := True\<rparr>
      else if take 2 record = ''MS'' then dt\<lparr>ms := True\<rparr>
      else if take 2 record = ''MR'' then dt\<lparr>mr := True\<rparr>
      else dt)"

fun devicetypes_loop :: "string list \<Rightarrow> devicetypes \<Rightarrow> devicetypes" where
  "devicetypes_loop [] dt = dt"
| "devicetypes_loop (record # models) dt = devicetypes_loop models (devicetypes_record record dt)"

definition main_devicetypes :: "string list \<Rightarrow> devicetypes" where
  "main_devicetypes models = devicetypes_loop models \<lparr>mx = False, ms = False, mr = False\<rparr>"

text \<open>Lines 321 to 332: the network type string.\<close>

definition main_nwtypestring :: "devicetypes \<Rightarrow> string" where
  "main_nwtypestring dt =
     (let s0 = '''';
          s1 = (if mr dt then s0 @ ''wireless'' else s0);
          s2 = (if length s1 > 0 then s1 @ '' '' else s1);
          s3 = (if ms dt then s2 @ ''switch'' else s2);
          s4 = (if length s3 > 0 then s3 @ '' '' else s3);
          s5 = (if mx dt then s4 @ ''appliance'' else s4)
      in s5)"

text \<open>Lines 334 to 339: the parameters of the network.\<close>

definition main_nwparams :: "arguments \<Rightarrow> string \<Rightarrow> string \<Rightarrow> jrec" where
  "main_nwparams a orgid nwtypestring =
     (let nwtags = (if arg_nwtags a \<noteq> ''null'' then arg_nwtags a else '''')
      in [(''name'', arg_nwname a), (''timeZone'', ''Europe/Helsinki''), (''tags'', nwtags),
          (''organizationId'', orgid), (''type'', nwtypestring)])"

text \<open>Lines 341 to 350: create the network when the first lookup did not find it; the value is \<^verbatim>\<open>nwid\<close>.\<close>

definition main_create_network ::
  "('w \<Rightarrow> request \<Rightarrow> response \<times> 'w) \<Rightarrow> string \<Rightarrow> string \<Rightarrow> string \<Rightarrow> jrec \<Rightarrow> string \<Rightarrow>
   string \<Rightarrow> ('w, string) script" where
  "main_create_network srv apikey shardurl orgid nwparams nwname nwid =
     (if nwid = ''null'' then
        andthen (createnw srv apikey shardurl orgid nwparams) (\<lambda>createstatus.
          if createstatus = ''null'' then
            andthen (printusertext ''ERROR: Unable to create network'') (\<lambda>_. sys_exit 2)
          else
            andthen (getnwid srv apikey shardurl orgid nwname) (\<lambda>nwid'.
              if nwid' = ''null'' then
                andthen (printusertext ''ERROR: Unable to get ID for new network'') (\<lambda>_. sys_exit 2)
              else ret nwid'))
      else ret nwid)"

text \<open>
  Lines 352 to 356: \<^verbatim>\<open>validserials\<close>. The loop runs over the indices of the serials and
  reads the model at the same index.
\<close>

fun validserials_loop :: "string list \<Rightarrow> string list \<Rightarrow> string list \<Rightarrow> abort + string list" where
  "validserials_loop [] models validserials = Inr validserials"
| "validserials_loop (serial # serials) [] validserials = Inl IndexError"
| "validserials_loop (serial # serials) (model # models) validserials =
     validserials_loop serials models
       (if model = ''mr'' \<or> model = ''ms'' \<or> model = ''mx'' then validserials @ [serial]
        else validserials)"

definition main_validserials :: "string list \<Rightarrow> string list \<Rightarrow> abort + string list" where
  "main_validserials serials models = validserials_loop serials models []"

text \<open>Lines 358 to 374: the body of the loop over \<^verbatim>\<open>validserials\<close>, and the loop.\<close>

definition main_enroll_device ::
  "('w \<Rightarrow> request \<Rightarrow> response \<times> 'w) \<Rightarrow> string \<Rightarrow> string \<Rightarrow> string \<Rightarrow> string \<Rightarrow> string \<Rightarrow>
   ('w, unit) script" where
  "main_enroll_device srv apikey shardurl nwid address devserial =
     andthen (claimdevice srv apikey shardurl nwid devserial) (\<lambda>_.
     andthen (getdeviceinfo srv apikey shardurl nwid devserial) (\<lambda>deviceinfo.
     andthen (lift (subscript deviceinfo ''serial'')) (\<lambda>s.
       if s = ''null'' then
         andthen (printusertext ''ERROR: Claiming or moving device unsuccessful'') (\<lambda>_. sys_exit 2)
       else
         andthen (lift (subscript deviceinfo ''model'')) (\<lambda>model.
         let hostname = model @ ''_'' @ devserial in
         andthen (setdevicedata srv apikey shardurl nwid devserial ''name'' hostname False) (\<lambda>_.
           if address \<noteq> ''null'' then
             andthen (setdevicedata srv apikey shardurl nwid devserial ''address'' address True)
               (\<lambda>_. ret ())
           else ret ())))))"

fun main_enroll_devices ::
  "('w \<Rightarrow> request \<Rightarrow> response \<times> 'w) \<Rightarrow> string \<Rightarrow> string \<Rightarrow> string \<Rightarrow> string \<Rightarrow> string list \<Rightarrow>
   ('w, unit) script" where
  "main_enroll_devices srv apikey shardurl nwid address [] = ret ()"
| "main_enroll_devices srv apikey shardurl nwid address (devserial # validserials) =
     andthen (main_enroll_device srv apikey shardurl nwid address devserial) (\<lambda>_.
       main_enroll_devices srv apikey shardurl nwid address validserials)"

text \<open>Lines 376 to 382: bind the network to the template, and the last line of the script.\<close>

definition main_bind ::
  "('w \<Rightarrow> request \<Rightarrow> response \<times> 'w) \<Rightarrow> string \<Rightarrow> string \<Rightarrow> string \<Rightarrow> string \<Rightarrow> devicetypes \<Rightarrow>
   bool \<Rightarrow> ('w, unit) script" where
  "main_bind srv apikey shardurl nwid templateid dt stoponerror =
     andthen (bindnw srv apikey shardurl nwid templateid (ms dt)) (\<lambda>bindstatus.
       if bindstatus = ''null'' \<and> stoponerror then
         andthen (printusertext ''ERROR: Unable to bind network to template'') (\<lambda>_. sys_exit 2)
       else printusertext ''End of script.'')"

text \<open>
  Lines 311 to 382: everything after the loop over the serials, from the serials, the
  models found for them and the values resolved before.
\<close>

definition main_deploy ::
  "('w \<Rightarrow> request \<Rightarrow> response \<times> 'w) \<Rightarrow> arguments \<Rightarrow> bool \<Rightarrow> string \<Rightarrow> string \<Rightarrow> string \<Rightarrow>
   string \<Rightarrow> string list \<Rightarrow> string list \<Rightarrow> ('w, unit) script" where
  "main_deploy srv a stoponerror orgid shardurl nwid templateid serials models =
     (let dt = main_devicetypes models;
          nwtypestring = main_nwtypestring dt;
          nwparams = main_nwparams a orgid nwtypestring
      in
        andthen (main_create_network srv (arg_apikey a) shardurl orgid nwparams (arg_nwname a) nwid)
          (\<lambda>nwid'.
        andthen (lift (main_validserials serials models)) (\<lambda>validserials.
        andthen (main_enroll_devices srv (arg_apikey a) shardurl nwid' (arg_address a) validserials)
          (\<lambda>_.
        main_bind srv (arg_apikey a) shardurl nwid' templateid dt stoponerror))))"

text \<open>Lines 284 to 288: the first lookup of the network; the value is \<^verbatim>\<open>nwid\<close>.\<close>

definition main_lookup_network ::
  "('w \<Rightarrow> request \<Rightarrow> response \<times> 'w) \<Rightarrow> string \<Rightarrow> string \<Rightarrow> string \<Rightarrow> string \<Rightarrow> bool \<Rightarrow>
   ('w, string) script" where
  "main_lookup_network srv apikey shardurl orgid nwname stoponerror =
     andthen (getnwid srv apikey shardurl orgid nwname) (\<lambda>nwid.
       if nwid \<noteq> ''null'' \<and> stoponerror then
         andthen (printusertext ''ERROR: Network with that name already exists'') (\<lambda>_. sys_exit 2)
       else ret nwid)"

text \<open>
  Lines 262 to 309, then the rest: the run once the options are read. \<open>stoponerror\<close> is
  true unless \<^verbatim>\<open>-m ignore_error\<close> was given.
\<close>

definition main_run ::
  "('w \<Rightarrow> request \<Rightarrow> response \<times> 'w) \<Rightarrow> arguments \<Rightarrow> ('w, unit) script" where
  "main_run srv a =
     (if arg_apikey a = ''null'' \<or> arg_orgname a = ''null'' \<or> arg_serial a = ''null'' \<or>
         arg_nwname a = ''null'' \<or> arg_template a = ''null''
      then andthen printhelp (\<lambda>_. sys_exit 2)
      else
        let stoponerror = (arg_modexisting a \<noteq> ''ignore_error'') in
        andthen (getorgid srv (arg_apikey a) (arg_orgname a)) (\<lambda>orgid.
          if orgid = ''null'' then
            andthen (printusertext ''ERROR: Fetching organization failed'') (\<lambda>_. sys_exit 2)
          else
        andthen (getshardurl srv (arg_apikey a) orgid) (\<lambda>shardurl.
          if shardurl = ''null'' then
            andthen (printusertext ''ERROR: Fetching Meraki cloud shard URL failed'') (\<lambda>_. sys_exit 2)
          else
        andthen (main_lookup_network srv (arg_apikey a) shardurl orgid (arg_nwname a) stoponerror)
          (\<lambda>nwid.
        andthen (gettemplateid srv (arg_apikey a) shardurl orgid (arg_template a)) (\<lambda>templateid.
          if templateid = ''null'' then
            andthen (printusertext (''ERROR: Unable to find template: '' @ arg_template a))
              (\<lambda>_. sys_exit 2)
          else
        let serials = split_space (arg_serial a) in
        andthen (main_claim_serials srv (arg_apikey a) shardurl orgid serials []) (\<lambda>models.
        main_deploy srv a stoponerror orgid shardurl nwid templateid serials models))))))"

text \<open>
  \<^verbatim>\<open>main(argv)\<close>: the argument is what \<^verbatim>\<open>getopt.getopt(argv, 'hk:o:s:n:c:m:a:t:')\<close> gives,
  \<open>None\<close> when it raises \<^verbatim>\<open>GetoptError\<close>, else the list of pairs of option and value.
\<close>

definition main ::
  "('w \<Rightarrow> request \<Rightarrow> response \<times> 'w) \<Rightarrow> (string \<times> string) list option \<Rightarrow> ('w, unit) script" where
  "main srv getopt =
     (case getopt of
        None \<Rightarrow> andthen printhelp (\<lambda>_. sys_exit 2)
      | Some opts \<Rightarrow> andthen (main_opts opts default_arguments) (main_run srv))"

section \<open>A Dashboard to run the script against\<close>

text \<open>
  A small Dashboard for running the script on concrete inputs. Its state is the list of
  the networks of the one organization it has. A POST to the networks URL appends a
  network named as asked, with the id \<open>N_\<close> followed by the name. The inventory holds
  two devices. The two parameters are the status codes it gives to the inventory listing
  and to the bind request.
\<close>

definition testbed_inventory :: "jrec list" where
  "testbed_inventory =
     [[(''mac'', ''00:18:0a:00:00:01''), (''serial'', ''MR34-AAAA''), (''networkId'', ''None''),
       (''model'', ''MR34''), (''claimedAt'', ''1499212800.0''), (''publicIp'', ''None'')],
      [(''mac'', ''00:18:0a:00:00:02''), (''serial'', ''MS120-BBBB''), (''networkId'', ''None''),
       (''model'', ''MS120''), (''claimedAt'', ''1499212800.0''), (''publicIp'', ''None'')]]"

fun testbed :: "nat \<Rightarrow> nat \<Rightarrow> jrec list \<Rightarrow> request \<Rightarrow> response \<times> jrec list" where
  "testbed inv_status bind_status nws rq =
     (case (meth rq, endpoint rq) of
        (GET, Organizations) \<Rightarrow>
          (\<lparr>status_code = 200, json = JList [[(''id'', ''549236''), (''name'', ''Acme'')]]\<rparr>, nws)
      | (GET, OrgSnmp org) \<Rightarrow>
          (\<lparr>status_code = 200, json = JDict [(''hostname'', ''n7.meraki.com'')]\<rparr>, nws)
      | (GET, OrgNetworks shard org) \<Rightarrow> (\<lparr>status_code = 200, json = JList nws\<rparr>, nws)
      | (POST, OrgNetworks shard org) \<Rightarrow>
          (case map_of (data rq) ''name'' of
             None \<Rightarrow> (\<lparr>status_code = 400, json = JDict []\<rparr>, nws)
           | Some n \<Rightarrow>
               (\<lparr>status_code = 201, json = JDict [(''id'', ''N_'' @ n), (''name'', n)]\<rparr>,
                nws @ [[(''id'', ''N_'' @ n), (''name'', n)]]))
      | (GET, OrgConfigTemplates shard org) \<Rightarrow>
          (\<lparr>status_code = 200, json = JList [[(''id'', ''T_1''), (''name'', ''Retail'')]]\<rparr>, nws)
      | (POST, NetworkBind shard nw) \<Rightarrow> (\<lparr>status_code = bind_status, json = JDict []\<rparr>, nws)
      | (POST, OrgClaim shard org) \<Rightarrow> (\<lparr>status_code = 200, json = JDict []\<rparr>, nws)
      | (GET, OrgInventory shard org) \<Rightarrow> (\<lparr>status_code = inv_status, json = JList testbed_inventory\<rparr>, nws)
      | (POST, NetworkDevicesClaim shard nw) \<Rightarrow> (\<lparr>status_code = 200, json = JDict []\<rparr>, nws)
      | (GET, NetworkDevice shard nw serial) \<Rightarrow>
          (\<lparr>status_code = 200, json = JDict [(''serial'', serial), (''model'', take 4 serial)]\<rparr>, nws)
      | (PUT, NetworkDevice shard nw serial) \<Rightarrow> (\<lparr>status_code = 200, json = JDict []\<rparr>, nws)
      | _ \<Rightarrow> (\<lparr>status_code = 404, json = JDict []\<rparr>, nws))"

definition start :: "'w \<Rightarrow> 'w session" where
  "start w = \<lparr>cloud = w, sent = [], stdout = []\<rparr>"

section \<open>Words for the claims\<close>

text \<open>The requests sent between two states of a run.\<close>

definition fresh :: "'w session \<Rightarrow> 'w session \<Rightarrow> request list" where
  "fresh \<sigma> \<sigma>' = drop (length (sent \<sigma>)) (sent \<sigma>')"

text \<open>The request that creates a network (line 111).\<close>

definition is_create_network :: "request \<Rightarrow> bool" where
  "is_create_network rq = (case endpoint rq of OrgNetworks shard org \<Rightarrow> meth rq = POST | _ \<Rightarrow> False)"

text \<open>The request that binds a network to a template (line 142).\<close>

definition is_bind :: "request \<Rightarrow> bool" where
  "is_bind rq = (case endpoint rq of NetworkBind shard nw \<Rightarrow> meth rq = POST | _ \<Rightarrow> False)"

text \<open>
  The requests of enrollment: the claim of a device into a network (line 166), the lookup
  of a device in a network (line 174) and the write of a field of a device (line 194).
\<close>

definition is_enrollment :: "request \<Rightarrow> bool" where
  "is_enrollment rq =
     (case endpoint rq of
        NetworkDevicesClaim shard nw \<Rightarrow> True
      | NetworkDevice shard nw serial \<Rightarrow> True
      | _ \<Rightarrow> False)"

text \<open>
  The provisioning of the network: lines 284 to 288 and then lines 341 to 350, the two
  parts of \<^verbatim>\<open>main\<close> that look the network up and create it, without the steps that
  \<^verbatim>\<open>main\<close> takes between the two (the template lookup and the loop over the serials).
\<close>

definition provision_network ::
  "('w \<Rightarrow> request \<Rightarrow> response \<times> 'w) \<Rightarrow> string \<Rightarrow> string \<Rightarrow> string \<Rightarrow> jrec \<Rightarrow> string \<Rightarrow>
   bool \<Rightarrow> ('w, string) script" where
  "provision_network srv apikey shardurl orgid nwparams nwname stoponerror =
     andthen (main_lookup_network srv apikey shardurl orgid nwname stoponerror)
       (main_create_network srv apikey shardurl orgid nwparams nwname)"

text \<open>The requests of the script, by the function that sends them.\<close>

definition get_networks :: "string \<Rightarrow> string \<Rightarrow> string \<Rightarrow> request" where
  "get_networks apikey shardurl orgid =
     \<lparr>meth = GET, endpoint = OrgNetworks shardurl orgid, data = [], header_key = apikey\<rparr>"

definition get_inventory :: "string \<Rightarrow> string \<Rightarrow> string \<Rightarrow> request" where
  "get_inventory apikey shardurl orgid =
     \<lparr>meth = GET, endpoint = OrgInventory shardurl orgid, data = [], header_key = apikey\<rparr>"

definition post_claim_serial :: "string \<Rightarrow> string \<Rightarrow> string \<Rightarrow> string \<Rightarrow> request" where
  "post_claim_serial apikey shardurl orgid serial =
     \<lparr>meth = POST, endpoint = OrgClaim shardurl orgid, data = [(''serial'', serial)],
      header_key = apikey\<rparr>"

definition post_claim_license :: "string \<Rightarrow> string \<Rightarrow> string \<Rightarrow> string \<Rightarrow> request" where
  "post_claim_license apikey shardurl orgid licensekey =
     \<lparr>meth = POST, endpoint = OrgClaim shardurl orgid,
      data = [(''licenseKey'', licensekey), (''licenseMode'', ''addDevices'')],
      header_key = apikey\<rparr>"

definition post_bind :: "string \<Rightarrow> string \<Rightarrow> string \<Rightarrow> string \<Rightarrow> bool \<Rightarrow> request" where
  "post_bind apikey shardurl nwid templateid autobind =
     \<lparr>meth = POST, endpoint = NetworkBind shardurl nwid,
      data = [(''configTemplateId'', templateid), (''autoBind'', if autobind then ''true'' else ''false'')],
      header_key = apikey\<rparr>"

text \<open>
  The inventory listing is answered with status 200 and an array of records, each with a
  serial, none of them the serial asked for.
\<close>

definition absent_from :: "response \<Rightarrow> string \<Rightarrow> bool" where
  "absent_from r serial =
     (status_code r = codes_ok \<and>
      (case json r of
         JList rs \<Rightarrow>
           list_all (\<lambda>record. case map_of record ''serial'' of None \<Rightarrow> False | Some v \<Rightarrow> v \<noteq> serial) rs
       | JDict d \<Rightarrow> False))"

text \<open>The inputs of the examples: the options of a run, as read, and a Dashboard state with the network.\<close>

definition example_opts :: "(string \<times> string) list" where
  "example_opts =
     [(''-k'', ''1234''), (''-o'', ''Acme''), (''-s'', ''MR34-AAAA MS120-BBBB''),
      (''-n'', ''Branch1''), (''-c'', ''Retail'')]"

definition example_arguments :: arguments where
  "example_arguments =
     \<lparr>arg_apikey = ''1234'', arg_orgname = ''Acme'', arg_serial = ''MR34-AAAA MS120-BBBB'',
      arg_nwname = ''Branch1'', arg_template = ''Retail'', arg_modexisting = ''null'',
      arg_address = ''null'', arg_nwtags = ''null''\<rparr>"

definition example_network :: "jrec list" where
  "example_network = [[(''id'', ''N_9''), (''name'', ''Branch1'')]]"


section \<open>Running the script step by step\<close>

lemma ret_apply [simp]: "ret x \<sigma> = (Inr x, \<sigma>)"
  by (simp add: ret_def)

lemma sys_exit_apply [simp]: "sys_exit n \<sigma> = (Inl (SysExit n), \<sigma>)"
  by (simp add: sys_exit_def throw_def)

lemma lift_apply [simp]: "lift r \<sigma> = (r, \<sigma>)"
  by (simp add: lift_def)

lemma printusertext_apply [simp]:
  "printusertext m \<sigma> = (Inr (), \<sigma>\<lparr>stdout := stdout \<sigma> @ [''@ '' @ m]\<rparr>)"
  by (simp add: printusertext_def)

lemma send_apply [simp]: "send srv rq \<sigma> = (Inr (reply srv rq \<sigma>), after srv rq \<sigma>)"
  by (simp add: send_def)

lemma andthen_apply:
  "andthen m f \<sigma> = (case m \<sigma> of (Inl e, \<sigma>') \<Rightarrow> (Inl e, \<sigma>') | (Inr x, \<sigma>') \<Rightarrow> f x \<sigma>')"
  by (simp add: andthen_def)

lemma sent_after [simp]: "sent (after srv rq \<sigma>) = sent \<sigma> @ [rq]"
  by (simp add: after_def)

lemma stdout_after [simp]: "stdout (after srv rq \<sigma>) = stdout \<sigma>"
  by (simp add: after_def)

lemma cloud_after [simp]: "cloud (after srv rq \<sigma>) = snd (srv (cloud \<sigma>) rq)"
  by (simp add: after_def)

lemma fresh_append: "sent \<sigma>' = sent \<sigma> @ new \<Longrightarrow> fresh \<sigma> \<sigma>' = new"
  by (simp add: fresh_def)

text \<open>Each helper function sends one request; its value is read from the reply.\<close>

lemma getorgid_apply:
  "getorgid srv k n \<sigma> =
     (if status_code (reply srv \<lparr>meth = GET, endpoint = Organizations, data = [], header_key = k\<rparr> \<sigma>) \<noteq> codes_ok
      then Inr ''null''
      else scan_id (json (reply srv \<lparr>meth = GET, endpoint = Organizations, data = [], header_key = k\<rparr> \<sigma>)) n,
      after srv \<lparr>meth = GET, endpoint = Organizations, data = [], header_key = k\<rparr> \<sigma>)"
  by (simp add: getorgid_def requests_get_def andthen_apply)

lemma getshardurl_apply:
  "getshardurl srv k org \<sigma> =
     (if status_code (reply srv \<lparr>meth = GET, endpoint = OrgSnmp org, data = [], header_key = k\<rparr> \<sigma>) \<noteq> codes_ok
      then Inr ''null''
      else subscript (json (reply srv \<lparr>meth = GET, endpoint = OrgSnmp org, data = [], header_key = k\<rparr> \<sigma>)) ''hostname'',
      after srv \<lparr>meth = GET, endpoint = OrgSnmp org, data = [], header_key = k\<rparr> \<sigma>)"
  by (simp add: getshardurl_def requests_get_def andthen_apply)

lemma getnwid_apply:
  "getnwid srv k sh org n \<sigma> =
     (if status_code (reply srv (get_networks k sh org) \<sigma>) \<noteq> codes_ok then Inr ''null''
      else scan_id (json (reply srv (get_networks k sh org) \<sigma>)) n,
      after srv (get_networks k sh org) \<sigma>)"
  by (simp add: getnwid_def requests_get_def get_networks_def andthen_apply)

lemma getnwid_state:
  "getnwid srv k sh org n \<sigma> = (r, \<sigma>') \<Longrightarrow> \<sigma>' = after srv (get_networks k sh org) \<sigma>"
  by (simp add: getnwid_apply)

lemma bindnw_apply:
  "bindnw srv k sh nw t ab \<sigma> =
     (Inr (if status_code (reply srv (post_bind k sh nw t ab) \<sigma>) \<noteq> codes_ok then ''null'' else ''ok''),
      after srv (post_bind k sh nw t ab) \<sigma>)"
  by (simp add: bindnw_def requests_post_def post_bind_def andthen_apply Let_def)

lemma claimdeviceorg_apply:
  "claimdeviceorg srv k sh org s \<sigma> = (Inr 0, after srv (post_claim_serial k sh org s) \<sigma>)"
  by (simp add: claimdeviceorg_def requests_post_def post_claim_serial_def andthen_apply)

lemma claimlicenseorg_apply:
  "claimlicenseorg srv k sh org s \<sigma> = (Inr 0, after srv (post_claim_license k sh org s) \<sigma>)"
  by (simp add: claimlicenseorg_def requests_post_def post_claim_license_def andthen_apply)

lemma claimdevice_apply:
  "claimdevice srv k sh nw s \<sigma> =
     (Inr 0, after srv \<lparr>meth = POST, endpoint = NetworkDevicesClaim sh nw, data = [(''serial'', s)],
                        header_key = k\<rparr> \<sigma>)"
  by (simp add: claimdevice_def requests_post_def andthen_apply)

lemma getdeviceinfo_apply:
  "getdeviceinfo srv k sh nw s \<sigma> =
     (Inr (if status_code (reply srv \<lparr>meth = GET, endpoint = NetworkDevice sh nw s, data = [],
                                       header_key = k\<rparr> \<sigma>) \<noteq> codes_ok
           then JDict [(''serial'', ''null''), (''model'', ''null'')]
           else json (reply srv \<lparr>meth = GET, endpoint = NetworkDevice sh nw s, data = [],
                                  header_key = k\<rparr> \<sigma>)),
      after srv \<lparr>meth = GET, endpoint = NetworkDevice sh nw s, data = [], header_key = k\<rparr> \<sigma>)"
  by (simp add: getdeviceinfo_def requests_get_def andthen_apply)

lemma setdevicedata_apply:
  "setdevicedata srv k sh nw s f v mv \<sigma> =
     (Inr (if status_code (reply srv \<lparr>meth = PUT, endpoint = NetworkDevice sh nw s,
               data = [(f, v), (''moveMapMarker'', if mv then ''true'' else ''false'')],
               header_key = k\<rparr> \<sigma>) \<noteq> codes_ok
           then ''null'' else ''ok''),
      after srv \<lparr>meth = PUT, endpoint = NetworkDevice sh nw s,
               data = [(f, v), (''moveMapMarker'', if mv then ''true'' else ''false'')],
               header_key = k\<rparr> \<sigma>)"
  by (simp add: setdevicedata_def requests_put_def andthen_apply Let_def)

lemma getorgdeviceinfo_apply:
  "getorgdeviceinfo srv k sh org s \<sigma> =
     (if status_code (reply srv (get_inventory k sh org) \<sigma>) \<noteq> codes_ok
      then Inr [(''serial'', ''null''), (''model'', ''null'')]
      else (case records (json (reply srv (get_inventory k sh org) \<sigma>)) of
              Inl e \<Rightarrow> Inl e
            | Inr rjson \<Rightarrow>
                (case inventory_loop rjson s None of
                   Inl e \<Rightarrow> Inl e
                 | Inr None \<Rightarrow> Inr [(''serial'', ''null''), (''model'', ''null'')]
                 | Inr (Some d) \<Rightarrow> Inr d)),
      after srv (get_inventory k sh org) \<sigma>)"
  by (simp add: getorgdeviceinfo_def requests_get_def get_inventory_def andthen_apply
      split: sum.splits option.splits)

lemma inventory_loop_absent:
  "\<forall>r\<in>set rs. \<exists>v. map_of r ''serial'' = Some v \<and> v \<noteq> s \<Longrightarrow> inventory_loop rs s acc = Inr acc"
  by (induction rs) (auto simp: getitem_def)

section \<open>The device types and the network type string\<close>

lemma devicetypes_loop_mx:
  "mx (devicetypes_loop models dt) \<longleftrightarrow>
     mx dt \<or> (\<exists>x\<in>set models. take 2 x = ''MX'' \<or> take 2 x = ''Z1'')"
  by (induction models arbitrary: dt) (auto simp: devicetypes_record_def)

lemma devicetypes_loop_ms:
  "ms (devicetypes_loop models dt) \<longleftrightarrow> ms dt \<or> (\<exists>x\<in>set models. take 2 x = ''MS'')"
  by (induction models arbitrary: dt) (auto simp: devicetypes_record_def)

lemma devicetypes_loop_mr:
  "mr (devicetypes_loop models dt) \<longleftrightarrow> mr dt \<or> (\<exists>x\<in>set models. take 2 x = ''MR'')"
  by (induction models arbitrary: dt) (auto simp: devicetypes_record_def)

lemma main_devicetypes_ms: "ms (main_devicetypes models) \<longleftrightarrow> (\<exists>x\<in>set models. take 2 x = ''MS'')"
  by (simp add: main_devicetypes_def devicetypes_loop_ms)


text \<open>
  C2. The network type string is to hold the words wireless, switch and appliance of the
  families present, one space between two words and no space before or after. The code
  adds the space after a word before it knows that another word follows: with a switch
  as the only device the string is \<open>switch\<close> followed by a space, and with an access
  point and an appliance the two words are two spaces apart. With all three families the
  string is as claimed, and with none it is empty.
\<close>

theorem nwtypestring_switch_only_trailing_space:
  "main_nwtypestring (main_devicetypes [''MS120'']) = ''switch '' \<and>
   main_nwtypestring (main_devicetypes [''MS120'']) \<noteq> ''switch'' \<and>
   main_nwtypestring (main_devicetypes [''MR34'', ''MX64'']) = ''wireless  appliance'' \<and>
   main_nwtypestring (main_devicetypes [''MR34'', ''MS120'', ''MX64'']) = ''wireless switch appliance'' \<and>
   main_nwtypestring (main_devicetypes []) = ''''"
  by (simp add: main_nwtypestring_def main_devicetypes_def devicetypes_record_def)

text \<open>
  C7. The family of a device is read from the first two characters of its model alone,
  compared as they are: MX or Z1 sets the appliance flag, MS the switch flag, MR the
  access point flag, and nothing else sets a flag. One device sets one flag when its
  prefix is one of the four and none otherwise; over a list of models a flag is set when
  some model of the list has a prefix of that family.
\<close>

theorem classification_by_prefix:
  "(take 2 m = take 2 m' \<longrightarrow> devicetypes_record m dt = devicetypes_record m' dt) \<and>
   main_devicetypes [m] =
     \<lparr>mx = (take 2 m = ''MX'' \<or> take 2 m = ''Z1''), ms = (take 2 m = ''MS''),
      mr = (take 2 m = ''MR'')\<rparr> \<and>
   length (filter id [mx (main_devicetypes [m]), ms (main_devicetypes [m]), mr (main_devicetypes [m])]) =
     (if take 2 m = ''MX'' \<or> take 2 m = ''Z1'' \<or> take 2 m = ''MS'' \<or> take 2 m = ''MR'' then 1 else 0) \<and>
   (mx (main_devicetypes models) \<longleftrightarrow> (\<exists>x\<in>set models. take 2 x = ''MX'' \<or> take 2 x = ''Z1'')) \<and>
   (ms (main_devicetypes models) \<longleftrightarrow> (\<exists>x\<in>set models. take 2 x = ''MS'')) \<and>
   (mr (main_devicetypes models) \<longleftrightarrow> (\<exists>x\<in>set models. take 2 x = ''MR''))"
proof -
  have one: "main_devicetypes [m] =
     \<lparr>mx = (take 2 m = ''MX'' \<or> take 2 m = ''Z1''), ms = (take 2 m = ''MS''),
      mr = (take 2 m = ''MR'')\<rparr>"
    by (simp add: main_devicetypes_def devicetypes_record_def)
  have cnt: "length (filter id [take 2 m = ''MX'' \<or> take 2 m = ''Z1'', take 2 m = ''MS'', take 2 m = ''MR'']) =
     (if take 2 m = ''MX'' \<or> take 2 m = ''Z1'' \<or> take 2 m = ''MS'' \<or> take 2 m = ''MR'' then 1 else 0)"
    by auto
  show ?thesis
    unfolding one
    using cnt
    by (simp add: devicetypes_record_def main_devicetypes_def devicetypes_loop_mx
        devicetypes_loop_ms devicetypes_loop_mr)
qed

theorem classification_by_prefix_witness:
  "take 2 ''MS120'' = take 2 ''MS220-8P'' \<and>
   devicetypes_record ''MS120'' \<lparr>mx = False, ms = False, mr = False\<rparr> =
     devicetypes_record ''MS220-8P'' \<lparr>mx = False, ms = False, mr = False\<rparr> \<and>
   main_devicetypes [''MS120''] = \<lparr>mx = False, ms = True, mr = False\<rparr> \<and>
   ms (main_devicetypes [''ms120'', ''MR34'', ''Z1-HW'', ''MS120'']) \<and>
   (\<exists>x\<in>set [''ms120'', ''MR34'', ''Z1-HW'', ''MS120'']. take 2 x = ''MS'')"
  using classification_by_prefix [of "''MS120''" "''MS220-8P''" "\<lparr>mx = False, ms = False, mr = False\<rparr>"
      "[''ms120'', ''MR34'', ''Z1-HW'', ''MS120'']"]
  by simp

section \<open>The loop over the serials\<close>

lemma main_claim_serial_null:
  assumes "fst (getorgdeviceinfo srv k sh org s (after srv (post_claim_serial k sh org s) \<sigma>)) =
             Inr [(''serial'', ''null''), (''model'', ''null'')]"
  shows "main_claim_serial srv k sh org s \<sigma> =
           (Inr ''null'',
            after srv (post_claim_license k sh org s)
              ((after srv (get_inventory k sh org) (after srv (post_claim_serial k sh org s) \<sigma>))
                 \<lparr>stdout := stdout \<sigma> @
                    [''@ INFO: Serial number '' @ s @ '' is a license or unsupported device'']\<rparr>))"
proof -
  let ?\<sigma>1 = "after srv (post_claim_serial k sh org s) \<sigma>"
  have g: "getorgdeviceinfo srv k sh org s ?\<sigma>1 =
             (Inr [(''serial'', ''null''), (''model'', ''null'')], after srv (get_inventory k sh org) ?\<sigma>1)"
    using assms by (simp add: getorgdeviceinfo_apply)
  show ?thesis
    by (simp add: main_claim_serial_def andthen_apply claimdeviceorg_apply g getitem_def
        claimlicenseorg_apply)
qed

lemma main_claim_serials_down:
  assumes down: "\<forall>w. status_code (fst (srv w (get_inventory k sh org))) \<noteq> codes_ok"
  shows "\<exists>\<sigma>'. main_claim_serials srv k sh org serials models \<sigma> =
                 (Inr (models @ map (\<lambda>s. ''null'') serials), \<sigma>') \<and>
              sent \<sigma>' = sent \<sigma> @ concat (map (\<lambda>s. [post_claim_serial k sh org s, get_inventory k sh org,
                                                     post_claim_license k sh org s]) serials) \<and>
              stdout \<sigma>' = stdout \<sigma> @
                map (\<lambda>s. ''@ INFO: Serial number '' @ s @ '' is a license or unsupported device'') serials"
proof (induction serials arbitrary: models \<sigma>)
  case Nil
  then show ?case by simp
next
  case (Cons s serials)
  let ?\<sigma>1 = "after srv (post_claim_serial k sh org s) \<sigma>"
  let ?\<sigma>2 = "after srv (post_claim_license k sh org s)
              ((after srv (get_inventory k sh org) ?\<sigma>1)
                 \<lparr>stdout := stdout \<sigma> @
                    [''@ INFO: Serial number '' @ s @ '' is a license or unsupported device'']\<rparr>)"
  have "fst (getorgdeviceinfo srv k sh org s ?\<sigma>1) = Inr [(''serial'', ''null''), (''model'', ''null'')]"
    using down by (simp add: getorgdeviceinfo_apply reply_def)
  then have step: "main_claim_serial srv k sh org s \<sigma> = (Inr ''null'', ?\<sigma>2)"
    by (rule main_claim_serial_null)
  from Cons.IH [of "models @ [''null'']" ?\<sigma>2]
  obtain \<sigma>' where
    run: "main_claim_serials srv k sh org serials (models @ [''null'']) ?\<sigma>2 =
            (Inr ((models @ [''null'']) @ map (\<lambda>s. ''null'') serials), \<sigma>')"
    and s: "sent \<sigma>' = sent ?\<sigma>2 @ concat (map (\<lambda>s. [post_claim_serial k sh org s, get_inventory k sh org,
                                                     post_claim_license k sh org s]) serials)"
    and p: "stdout \<sigma>' = stdout ?\<sigma>2 @
              map (\<lambda>s. ''@ INFO: Serial number '' @ s @ '' is a license or unsupported device'') serials"
    by blast
  have "main_claim_serials srv k sh org (s # serials) models \<sigma> =
          (Inr (models @ map (\<lambda>s. ''null'') (s # serials)), \<sigma>')"
    using run by (simp add: andthen_apply step)
  moreover have "sent \<sigma>' = sent \<sigma> @ concat (map (\<lambda>s. [post_claim_serial k sh org s, get_inventory k sh org,
                                                     post_claim_license k sh org s]) (s # serials))"
    using s by simp
  moreover have "stdout \<sigma>' = stdout \<sigma> @
      map (\<lambda>s. ''@ INFO: Serial number '' @ s @ '' is a license or unsupported device'') (s # serials)"
    using p by simp
  ultimately show ?case by blast
qed

lemma absent_from_lookup:
  assumes "absent_from (reply srv (get_inventory k sh org) \<sigma>) s"
  shows "fst (getorgdeviceinfo srv k sh org s \<sigma>) = Inr [(''serial'', ''null''), (''model'', ''null'')]"
proof -
  from assms obtain rs where ok: "status_code (reply srv (get_inventory k sh org) \<sigma>) = codes_ok"
    and body: "json (reply srv (get_inventory k sh org) \<sigma>) = JList rs"
    and all: "list_all (\<lambda>record. case map_of record ''serial'' of None \<Rightarrow> False | Some v \<Rightarrow> v \<noteq> s) rs"
    by (auto simp: absent_from_def split: json.splits)
  from all have "\<forall>r\<in>set rs. \<exists>v. map_of r ''serial'' = Some v \<and> v \<noteq> s"
    by (auto simp: list_all_iff split: option.splits)
  then have "inventory_loop rs s None = Inr None"
    by (rule inventory_loop_absent)
  with ok body show ?thesis
    by (simp add: getorgdeviceinfo_apply records_def)
qed

lemma main_claim_serial_sent:
  "main_claim_serial srv k sh org s \<sigma> = (r, \<sigma>') \<Longrightarrow> \<exists>new. sent \<sigma>' = sent \<sigma> @ new"
  by (auto simp: main_claim_serial_def andthen_apply claimdeviceorg_apply getorgdeviceinfo_apply
      claimlicenseorg_apply split: sum.splits if_splits option.splits)

lemma main_claim_serials_sent:
  "main_claim_serials srv k sh org serials models \<sigma> = (r, \<sigma>') \<Longrightarrow> \<exists>new. sent \<sigma>' = sent \<sigma> @ new"
proof (induction serials arbitrary: models \<sigma>)
  case Nil
  then show ?case by simp
next
  case (Cons x serials)
  obtain y \<sigma>a where one: "main_claim_serial srv k sh org x \<sigma> = (y, \<sigma>a)"
    by (cases "main_claim_serial srv k sh org x \<sigma>")
  from main_claim_serial_sent [OF one] obtain new1 where n1: "sent \<sigma>a = sent \<sigma> @ new1"
    by blast
  show ?case
  proof (cases y)
    case (Inl e)
    with Cons.prems one have "\<sigma>' = \<sigma>a" by (simp add: andthen_apply)
    with n1 show ?thesis by blast
  next
    case (Inr m)
    with Cons.prems one have "main_claim_serials srv k sh org serials (models @ [m]) \<sigma>a = (r, \<sigma>')"
      by (simp add: andthen_apply)
    from Cons.IH [OF this] obtain new2 where "sent \<sigma>' = sent \<sigma>a @ new2" by blast
    with n1 have "sent \<sigma>' = sent \<sigma> @ (new1 @ new2)" by simp
    then show ?thesis by blast
  qed
qed

lemma devicetypes_loop_null:
  "devicetypes_loop (filter (\<lambda>m. m \<noteq> ''null'') models) dt = devicetypes_loop models dt"
  by (induction models arbitrary: dt) (simp_all add: devicetypes_record_def)

lemma validserials_loop_zip:
  "validserials_loop serials models acc = Inr vs \<Longrightarrow>
   vs = acc @ map fst (filter (\<lambda>(s, m). m = ''mr'' \<or> m = ''ms'' \<or> m = ''mx'') (zip serials models))"
  by (induction serials models acc rule: validserials_loop.induct) (auto split: if_splits)

lemma main_claim_serials_absent:
  assumes never: "\<forall>w. absent_from (fst (srv w (get_inventory k sh org))) s"
    and run: "main_claim_serials srv k sh org serials models \<sigma> = (Inr found, \<sigma>')"
  shows "\<exists>tail. found = models @ tail \<and> length tail = length serials \<and>
           (\<forall>i<length serials. serials ! i = s \<longrightarrow> tail ! i = ''null'') \<and>
           (s \<in> set serials \<longrightarrow> post_claim_license k sh org s \<in> set (fresh \<sigma> \<sigma>'))"
  using run
proof (induction serials arbitrary: models \<sigma>)
  case Nil
  then show ?case by simp
next
  case (Cons x serials)
  obtain y \<sigma>a where one: "main_claim_serial srv k sh org x \<sigma> = (y, \<sigma>a)"
    by (cases "main_claim_serial srv k sh org x \<sigma>")
  from Cons.prems one obtain m where y: "y = Inr m"
    and rest: "main_claim_serials srv k sh org serials (models @ [m]) \<sigma>a = (Inr found, \<sigma>')"
    by (cases y) (auto simp: andthen_apply)
  from Cons.IH [OF rest] obtain tail where
    t: "found = (models @ [m]) @ tail" "length tail = length serials"
      "\<forall>i<length serials. serials ! i = s \<longrightarrow> tail ! i = ''null''"
      "s \<in> set serials \<longrightarrow> post_claim_license k sh org s \<in> set (fresh \<sigma>a \<sigma>')"
    by blast
  from main_claim_serial_sent [OF one [unfolded y]] obtain new1 where n1: "sent \<sigma>a = sent \<sigma> @ new1"
    by blast
  from main_claim_serials_sent [OF rest] obtain new2 where n2: "sent \<sigma>' = sent \<sigma>a @ new2"
    by blast
  have f: "fresh \<sigma> \<sigma>' = new1 @ new2" "fresh \<sigma>a \<sigma>' = new2" "fresh \<sigma> \<sigma>a = new1"
    using n1 n2 by (simp_all add: fresh_def)
  have here: "m = ''null'' \<and> post_claim_license k sh org s \<in> set new1" if "x = s"
  proof -
    have "absent_from (reply srv (get_inventory k sh org) (after srv (post_claim_serial k sh org s) \<sigma>)) s"
      using never by (simp add: reply_def)
    then have "fst (getorgdeviceinfo srv k sh org s (after srv (post_claim_serial k sh org s) \<sigma>)) =
        Inr [(''serial'', ''null''), (''model'', ''null'')]"
      by (rule absent_from_lookup)
    from main_claim_serial_null [OF this] one y that
    have "m = ''null''" "sent \<sigma>a = sent \<sigma> @ [post_claim_serial k sh org s, get_inventory k sh org,
        post_claim_license k sh org s]"
      by auto
    with n1 show ?thesis by auto
  qed
  have "found = models @ (m # tail)"
    using t(1) by simp
  moreover have "length (m # tail) = length (x # serials)"
    using t(2) by simp
  moreover have "\<forall>i<length (x # serials). (x # serials) ! i = s \<longrightarrow> (m # tail) ! i = ''null''"
    using t(3) here by (auto simp: nth_Cons split: nat.splits)
  moreover have "s \<in> set (x # serials) \<longrightarrow> post_claim_license k sh org s \<in> set (fresh \<sigma> \<sigma>')"
    using t(4) here f by auto
  ultimately show ?case by blast
qed

lemma absent_serial_not_valid:
  assumes "length found = length serials"
    and "\<forall>i<length serials. serials ! i = s \<longrightarrow> found ! i = ''null''"
    and "main_validserials serials found = Inr vs"
  shows "s \<notin> set vs"
proof
  assume "s \<in> set vs"
  moreover have "vs = map fst (filter (\<lambda>(s, m). m = ''mr'' \<or> m = ''ms'' \<or> m = ''mx'') (zip serials found))"
    using validserials_loop_zip [of serials found "[]" vs] assms(3) by (simp add: main_validserials_def)
  ultimately obtain m where "(s, m) \<in> set (zip serials found)" "m = ''mr'' \<or> m = ''ms'' \<or> m = ''mx''"
    by auto
  then obtain i where "i < length serials" "serials ! i = s" "found ! i = m"
    using assms(1) by (auto simp: set_zip)
  with assms(2) \<open>m = ''mr'' \<or> m = ''ms'' \<or> m = ''mx''\<close> show False by auto
qed

text \<open>
  C8. A serial that the inventory listing does not hold. When the listing read after the
  claim of the serial into the organization is answered with status 200 and holds no
  record with the serial, the pass of the loop for that serial sends the claim, the
  listing and then a license claim with the same serial, prints the INFO line and appends
  the model \<open>null\<close>. Over the whole loop, for a serial that no listing holds: the model
  found at each of its places is \<open>null\<close>, a license claim for it is among the requests
  sent, and it is not among the serials kept for enrollment. Models \<open>null\<close> set no flag
  of the device types.
\<close>

theorem absent_serial_claimed_as_license:
  "(absent_from (reply srv (get_inventory k sh org) (after srv (post_claim_serial k sh org s) \<sigma>)) s \<longrightarrow>
      (\<exists>\<sigma>'. main_claim_serial srv k sh org s \<sigma> = (Inr ''null'', \<sigma>') \<and>
         fresh \<sigma> \<sigma>' = [post_claim_serial k sh org s, get_inventory k sh org,
                       post_claim_license k sh org s] \<and>
         stdout \<sigma>' = stdout \<sigma> @
           [''@ INFO: Serial number '' @ s @ '' is a license or unsupported device''] \<and>
         main_claim_serials srv k sh org (s # serials) models \<sigma> =
           main_claim_serials srv k sh org serials (models @ [''null'']) \<sigma>')) \<and>
   ((\<forall>w. absent_from (fst (srv w (get_inventory k sh org))) s) \<and>
    main_claim_serials srv k sh org batch [] \<sigma> = (Inr found, \<tau>) \<longrightarrow>
      length found = length batch \<and>
      (\<forall>i<length batch. batch ! i = s \<longrightarrow> found ! i = ''null'') \<and>
      (s \<in> set batch \<longrightarrow> post_claim_license k sh org s \<in> set (fresh \<sigma> \<tau>)) \<and>
      (\<forall>vs. main_validserials batch found = Inr vs \<longrightarrow> s \<notin> set vs)) \<and>
   main_devicetypes (filter (\<lambda>m. m \<noteq> ''null'') found) = main_devicetypes found \<and>
   devicetypes_record ''null'' dt = dt"
proof (intro conjI impI)
  let ?\<sigma>1 = "after srv (post_claim_serial k sh org s) \<sigma>"
  let ?\<sigma>2 = "after srv (post_claim_license k sh org s)
              ((after srv (get_inventory k sh org) ?\<sigma>1)
                 \<lparr>stdout := stdout \<sigma> @
                    [''@ INFO: Serial number '' @ s @ '' is a license or unsupported device'']\<rparr>)"
  assume "absent_from (reply srv (get_inventory k sh org) ?\<sigma>1) s"
  then have "fst (getorgdeviceinfo srv k sh org s ?\<sigma>1) = Inr [(''serial'', ''null''), (''model'', ''null'')]"
    by (rule absent_from_lookup)
  then have step: "main_claim_serial srv k sh org s \<sigma> = (Inr ''null'', ?\<sigma>2)"
    by (rule main_claim_serial_null)
  have sent: "sent ?\<sigma>2 = sent \<sigma> @ [post_claim_serial k sh org s, get_inventory k sh org,
                                   post_claim_license k sh org s]"
    by simp
  have "fresh \<sigma> ?\<sigma>2 = [post_claim_serial k sh org s, get_inventory k sh org,
                         post_claim_license k sh org s]"
    using sent by (rule fresh_append)
  moreover have "stdout ?\<sigma>2 = stdout \<sigma> @
      [''@ INFO: Serial number '' @ s @ '' is a license or unsupported device'']"
    by simp
  moreover have "main_claim_serials srv k sh org (s # serials) models \<sigma> =
             main_claim_serials srv k sh org serials (models @ [''null'']) ?\<sigma>2"
    by (simp add: andthen_apply step)
  ultimately show "\<exists>\<sigma>'. main_claim_serial srv k sh org s \<sigma> = (Inr ''null'', \<sigma>') \<and>
         fresh \<sigma> \<sigma>' = [post_claim_serial k sh org s, get_inventory k sh org,
                       post_claim_license k sh org s] \<and>
         stdout \<sigma>' = stdout \<sigma> @
           [''@ INFO: Serial number '' @ s @ '' is a license or unsupported device''] \<and>
         main_claim_serials srv k sh org (s # serials) models \<sigma> =
           main_claim_serials srv k sh org serials (models @ [''null'']) \<sigma>'"
    using step by blast
next
  assume "(\<forall>w. absent_from (fst (srv w (get_inventory k sh org))) s) \<and>
    main_claim_serials srv k sh org batch [] \<sigma> = (Inr found, \<tau>)"
  then have never: "\<forall>w. absent_from (fst (srv w (get_inventory k sh org))) s"
    and run: "main_claim_serials srv k sh org batch [] \<sigma> = (Inr found, \<tau>)"
    by simp_all
  from main_claim_serials_absent [OF never run]
  have len: "length found = length batch"
    and null: "\<forall>i<length batch. batch ! i = s \<longrightarrow> found ! i = ''null''"
    and license: "s \<in> set batch \<longrightarrow> post_claim_license k sh org s \<in> set (fresh \<sigma> \<tau>)"
    by auto
  show "length found = length batch" by (rule len)
  show "\<forall>i<length batch. batch ! i = s \<longrightarrow> found ! i = ''null''" by (rule null)
  show "post_claim_license k sh org s \<in> set (fresh \<sigma> \<tau>)" if "s \<in> set batch"
    using license that by simp
  show "\<forall>vs. main_validserials batch found = Inr vs \<longrightarrow> s \<notin> set vs"
    using absent_serial_not_valid [OF len null] by blast
next
  show "main_devicetypes (filter (\<lambda>m. m \<noteq> ''null'') found) = main_devicetypes found"
    by (simp add: main_devicetypes_def devicetypes_loop_null)
  show "devicetypes_record ''null'' dt = dt"
    by (simp add: devicetypes_record_def)
qed

theorem absent_serial_claimed_as_license_witness:
  "main_claim_serial (testbed 200 200) ''1234'' ''n7.meraki.com'' ''549236'' ''Z2A7-1AWG-DJ2Z'' (start []) =
     (Inr ''null'',
      \<lparr>cloud = [],
       sent = [post_claim_serial ''1234'' ''n7.meraki.com'' ''549236'' ''Z2A7-1AWG-DJ2Z'',
               get_inventory ''1234'' ''n7.meraki.com'' ''549236'',
               post_claim_license ''1234'' ''n7.meraki.com'' ''549236'' ''Z2A7-1AWG-DJ2Z''],
       stdout = [''@ INFO: Serial number Z2A7-1AWG-DJ2Z is a license or unsupported device'']\<rparr>) \<and>
   fst (main_claim_serials (testbed 200 200) ''1234'' ''n7.meraki.com'' ''549236''
          [''MR34-AAAA'', ''Z2A7-1AWG-DJ2Z''] [] (start [])) = Inr [''MR34'', ''null''] \<and>
   post_claim_license ''1234'' ''n7.meraki.com'' ''549236'' ''Z2A7-1AWG-DJ2Z'' \<in>
     set (sent (snd (main_claim_serials (testbed 200 200) ''1234'' ''n7.meraki.com'' ''549236''
          [''MR34-AAAA'', ''Z2A7-1AWG-DJ2Z''] [] (start []))))"
proof -
  let ?T = "testbed 200 200"
  let ?s = "''Z2A7-1AWG-DJ2Z''"
  let ?C = "post_claim_serial ''1234'' ''n7.meraki.com'' ''549236'' ?s"
  let ?G = "get_inventory ''1234'' ''n7.meraki.com'' ''549236''"
  let ?L = "main_claim_serials ?T ''1234'' ''n7.meraki.com'' ''549236'' [''MR34-AAAA'', ?s] [] (start [])"
  have never: "\<forall>w. absent_from (fst (?T w ?G)) ?s"
    by (simp add: absent_from_def get_inventory_def testbed_inventory_def codes_ok_def)
  then have here: "absent_from (reply ?T ?G (after ?T ?C (start []))) ?s"
    by (simp add: reply_def)
  have found: "fst ?L = Inr [''MR34'', ''null'']"
    by code_simp
  then have run: "?L = (Inr [''MR34'', ''null''], snd ?L)"
    by (simp add: prod_eq_iff)
  note inst = absent_serial_claimed_as_license [where srv = ?T and k = "''1234''"
      and sh = "''n7.meraki.com''" and org = "''549236''" and s = ?s and \<sigma> = "start []"
      and batch = "[''MR34-AAAA'', ?s]" and found = "[''MR34'', ''null'']" and \<tau> = "snd ?L"]
  from inst here
  obtain \<sigma>' where r: "main_claim_serial ?T ''1234'' ''n7.meraki.com'' ''549236'' ?s (start []) = (Inr ''null'', \<sigma>')"
    by blast
  have "snd (main_claim_serial ?T ''1234'' ''n7.meraki.com'' ''549236'' ?s (start [])) =
     \<lparr>cloud = [],
       sent = [?C, ?G, post_claim_license ''1234'' ''n7.meraki.com'' ''549236'' ?s],
       stdout = [''@ INFO: Serial number Z2A7-1AWG-DJ2Z is a license or unsupported device'']\<rparr>"
    by code_simp
  with r have one: "main_claim_serial ?T ''1234'' ''n7.meraki.com'' ''549236'' ?s (start []) =
     (Inr ''null'',
      \<lparr>cloud = [],
       sent = [?C, ?G, post_claim_license ''1234'' ''n7.meraki.com'' ''549236'' ?s],
       stdout = [''@ INFO: Serial number Z2A7-1AWG-DJ2Z is a license or unsupported device'']\<rparr>)"
    by simp
  from inst never run
  have "post_claim_license ''1234'' ''n7.meraki.com'' ''549236'' ?s \<in> set (fresh (start []) (snd ?L))"
    by simp
  then have two: "post_claim_license ''1234'' ''n7.meraki.com'' ''549236'' ?s \<in> set (sent (snd ?L))"
    by (simp add: fresh_def start_def)
  from one found two show ?thesis by blast
qed

text \<open>
  C10. When the inventory listing is answered with a status other than 200, the lookup of
  a serial gives the record with serial and model \<open>null\<close>, the same value as for a serial
  that a listing answered with status 200 does not hold. When every listing fails so, the
  loop over the serials sends for each serial the claim, the listing and a license claim,
  prints the INFO line for each and finds the model \<open>null\<close> for each.
\<close>

theorem listing_failure_is_absence:
  assumes down: "\<forall>w. status_code (fst (srv w (get_inventory k sh org))) \<noteq> codes_ok"
  shows "fst (getorgdeviceinfo srv k sh org s \<sigma>) = Inr [(''serial'', ''null''), (''model'', ''null'')] \<and>
    (absent_from (reply srv' (get_inventory k sh org) \<tau>) s \<longrightarrow>
       fst (getorgdeviceinfo srv' k sh org s \<tau>) = fst (getorgdeviceinfo srv k sh org s \<sigma>)) \<and>
    (\<exists>\<sigma>'. main_claim_serials srv k sh org serials models \<sigma> =
             (Inr (models @ map (\<lambda>s. ''null'') serials), \<sigma>') \<and>
           fresh \<sigma> \<sigma>' = concat (map (\<lambda>s. [post_claim_serial k sh org s, get_inventory k sh org,
                                           post_claim_license k sh org s]) serials) \<and>
           stdout \<sigma>' = stdout \<sigma> @
             map (\<lambda>s. ''@ INFO: Serial number '' @ s @ '' is a license or unsupported device'') serials)"
proof -
  have a: "fst (getorgdeviceinfo srv k sh org s \<sigma>) = Inr [(''serial'', ''null''), (''model'', ''null'')]"
    using down by (simp add: getorgdeviceinfo_apply reply_def)
  have b: "fst (getorgdeviceinfo srv' k sh org s \<tau>) = Inr [(''serial'', ''null''), (''model'', ''null'')]"
    if "absent_from (reply srv' (get_inventory k sh org) \<tau>) s"
    using that by (rule absent_from_lookup)
  from down main_claim_serials_down [of srv k sh org serials models \<sigma>]
  obtain \<sigma>' where c: "main_claim_serials srv k sh org serials models \<sigma> =
             (Inr (models @ map (\<lambda>s. ''null'') serials), \<sigma>')"
     "sent \<sigma>' = sent \<sigma> @ concat (map (\<lambda>s. [post_claim_serial k sh org s, get_inventory k sh org,
                                           post_claim_license k sh org s]) serials)"
     "stdout \<sigma>' = stdout \<sigma> @
        map (\<lambda>s. ''@ INFO: Serial number '' @ s @ '' is a license or unsupported device'') serials"
    by blast
  have "fresh \<sigma> \<sigma>' = concat (map (\<lambda>s. [post_claim_serial k sh org s, get_inventory k sh org,
                                           post_claim_license k sh org s]) serials)"
    using c(2) by (rule fresh_append)
  with a b c show ?thesis by auto
qed

theorem listing_failure_is_absence_witness:
  "fst (getorgdeviceinfo (testbed 500 200) ''1234'' ''n7.meraki.com'' ''549236'' ''Z2A7-1AWG-DJ2Z'' (start [])) =
     Inr [(''serial'', ''null''), (''model'', ''null'')] \<and>
   fst (getorgdeviceinfo (testbed 200 200) ''1234'' ''n7.meraki.com'' ''549236'' ''Z2A7-1AWG-DJ2Z'' (start [])) =
     Inr [(''serial'', ''null''), (''model'', ''null'')] \<and>
   fst (main_claim_serials (testbed 500 200) ''1234'' ''n7.meraki.com'' ''549236''
          [''MR34-AAAA'', ''MS120-BBBB''] [] (start [])) = Inr [''null'', ''null''] \<and>
   sent (snd (main_claim_serials (testbed 500 200) ''1234'' ''n7.meraki.com'' ''549236''
          [''MR34-AAAA'', ''MS120-BBBB''] [] (start []))) =
     [post_claim_serial ''1234'' ''n7.meraki.com'' ''549236'' ''MR34-AAAA'',
      get_inventory ''1234'' ''n7.meraki.com'' ''549236'',
      post_claim_license ''1234'' ''n7.meraki.com'' ''549236'' ''MR34-AAAA'',
      post_claim_serial ''1234'' ''n7.meraki.com'' ''549236'' ''MS120-BBBB'',
      get_inventory ''1234'' ''n7.meraki.com'' ''549236'',
      post_claim_license ''1234'' ''n7.meraki.com'' ''549236'' ''MS120-BBBB'']"
proof -
  let ?G = "get_inventory ''1234'' ''n7.meraki.com'' ''549236''"
  let ?s = "''Z2A7-1AWG-DJ2Z''"
  have down: "\<forall>w. status_code (fst (testbed 500 200 w ?G)) \<noteq> codes_ok"
    by (simp add: get_inventory_def codes_ok_def)
  have absent: "absent_from (reply (testbed 200 200) ?G (start [])) ?s"
    by code_simp
  from listing_failure_is_absence [where srv = "testbed 500 200" and k = "''1234''"
      and sh = "''n7.meraki.com''" and org = "''549236''" and s = ?s and \<sigma> = "start []"
      and srv' = "testbed 200 200" and \<tau> = "start []"
      and serials = "[''MR34-AAAA'', ''MS120-BBBB'']" and models = "[]"] down absent
  show ?thesis
    by (auto simp: fresh_def start_def)
qed

section \<open>Looking up and creating the network\<close>

lemma is_create_network_get [simp]: "\<not> is_create_network (get_networks k sh org)"
  by (simp add: is_create_network_def get_networks_def)

lemma createnw_sent:
  "createnw srv k sh org p \<sigma> = (r, \<sigma>') \<Longrightarrow>
   \<exists>new. sent \<sigma>' = sent \<sigma> @ new \<and> length (filter is_create_network new) \<le> 1 \<and>
         (\<forall>rq\<in>set new. endpoint rq = OrgNetworks sh org)"
  by (auto simp: createnw_def andthen_apply getnwid_apply requests_post_def Let_def get_networks_def
      is_create_network_def split: sum.splits if_splits)

lemma main_lookup_network_found:
  "getnwid srv k sh org n \<sigma> = (Inr nwid, \<sigma>') \<Longrightarrow> nwid \<noteq> ''null'' \<Longrightarrow>
   main_lookup_network srv k sh org n stop \<sigma> =
     (if stop
      then (Inl (SysExit 2),
            \<sigma>'\<lparr>stdout := stdout \<sigma>' @ [''@ ERROR: Network with that name already exists'']\<rparr>)
      else (Inr nwid, \<sigma>'))"
  by (simp add: main_lookup_network_def andthen_apply)

lemma main_create_network_last:
  assumes "main_create_network srv k sh org p n nwid0 \<sigma> = (Inr nwid, \<sigma>1)" "nwid0 = ''null''"
  shows "\<exists>\<sigma>c new. getnwid srv k sh org n \<sigma>c = (Inr nwid, \<sigma>1) \<and> nwid \<noteq> ''null'' \<and>
           sent \<sigma>c = sent \<sigma> @ new \<and> length (filter is_create_network new) \<le> 1"
proof -
  obtain st \<sigma>a where c: "createnw srv k sh org p \<sigma> = (st, \<sigma>a)"
    by (cases "createnw srv k sh org p \<sigma>")
  from createnw_sent [OF c] obtain new where
    new: "sent \<sigma>a = sent \<sigma> @ new" "length (filter is_create_network new) \<le> 1"
    by blast
  from assms c have "getnwid srv k sh org n \<sigma>a = (Inr nwid, \<sigma>1) \<and> nwid \<noteq> ''null''"
    by (auto simp: main_create_network_def andthen_apply split: sum.splits if_splits prod.splits)
  with new show ?thesis by blast
qed

lemma provision_last:
  assumes "provision_network srv k sh org p n False \<sigma> = (Inr nwid, \<sigma>1)"
  shows "\<exists>\<sigma>c new. getnwid srv k sh org n \<sigma>c = (Inr nwid, \<sigma>1) \<and> nwid \<noteq> ''null'' \<and>
           sent \<sigma>c = sent \<sigma> @ new \<and> length (filter is_create_network new) \<le> 1"
proof -
  obtain x \<sigma>a where g: "getnwid srv k sh org n \<sigma> = (x, \<sigma>a)"
    by (cases "getnwid srv k sh org n \<sigma>")
  have sa: "\<sigma>a = after srv (get_networks k sh org) \<sigma>"
    using g by (rule getnwid_state)
  from assms g obtain nwid0 where x: "x = Inr nwid0"
    and rest: "main_create_network srv k sh org p n nwid0 \<sigma>a = (Inr nwid, \<sigma>1)"
    by (auto simp: provision_network_def main_lookup_network_def andthen_apply split: sum.splits)
  show ?thesis
  proof (cases "nwid0 = ''null''")
    case True
    from main_create_network_last [OF rest True] obtain \<sigma>c new where
      "getnwid srv k sh org n \<sigma>c = (Inr nwid, \<sigma>1)" "nwid \<noteq> ''null''"
      "sent \<sigma>c = sent \<sigma>a @ new" "length (filter is_create_network new) \<le> 1"
      by blast
    moreover from this have "sent \<sigma>c = sent \<sigma> @ (get_networks k sh org # new)"
      "length (filter is_create_network (get_networks k sh org # new)) \<le> 1"
      by (simp_all add: sa)
    ultimately show ?thesis by blast
  next
    case False
    with rest have "nwid = nwid0" "\<sigma>1 = \<sigma>a"
      by (simp_all add: main_create_network_def)
    with g x False have "getnwid srv k sh org n \<sigma> = (Inr nwid, \<sigma>1) \<and> nwid \<noteq> ''null'' \<and>
      sent \<sigma> = sent \<sigma> @ [] \<and> length (filter is_create_network []) \<le> 1"
      by simp
    then show ?thesis by blast
  qed
qed

lemma provision_found:
  assumes "getnwid srv k sh org n \<sigma> = (Inr nwid, \<sigma>')" "nwid \<noteq> ''null''"
  shows "provision_network srv k sh org p n False \<sigma> = (Inr nwid, \<sigma>')"
  using assms
  by (simp add: provision_network_def main_lookup_network_def main_create_network_def andthen_apply)

lemma main_create_network_sent:
  "main_create_network srv k sh org p n nwid \<sigma> = (r, \<sigma>') \<Longrightarrow>
   \<exists>new. sent \<sigma>' = sent \<sigma> @ new \<and> (\<forall>rq\<in>set new. endpoint rq = OrgNetworks sh org) \<and>
     (nwid \<noteq> ''null'' \<longrightarrow> new = [])"
proof (cases "nwid = ''null''")
  case False
  assume "main_create_network srv k sh org p n nwid \<sigma> = (r, \<sigma>')"
  with False have "\<sigma>' = \<sigma>" by (simp add: main_create_network_def)
  then show ?thesis by simp
next
  case True
  assume run: "main_create_network srv k sh org p n nwid \<sigma> = (r, \<sigma>')"
  obtain st \<sigma>a where c: "createnw srv k sh org p \<sigma> = (st, \<sigma>a)"
    by (cases "createnw srv k sh org p \<sigma>")
  from createnw_sent [OF c] obtain new where
    new: "sent \<sigma>a = sent \<sigma> @ new" "\<forall>rq\<in>set new. endpoint rq = OrgNetworks sh org"
    by blast
  from run True c have "sent \<sigma>' = sent \<sigma>a \<or> sent \<sigma>' = sent \<sigma>a @ [get_networks k sh org]"
    by (auto simp: main_create_network_def andthen_apply getnwid_apply split: sum.splits if_splits)
  then have "\<exists>new2. sent \<sigma>' = sent \<sigma> @ new2 \<and> (\<forall>rq\<in>set new2. endpoint rq = OrgNetworks sh org)"
  proof
    assume "sent \<sigma>' = sent \<sigma>a"
    with new show ?thesis by auto
  next
    assume "sent \<sigma>' = sent \<sigma>a @ [get_networks k sh org]"
    with new have "sent \<sigma>' = sent \<sigma> @ (new @ [get_networks k sh org])"
      "\<forall>rq\<in>set (new @ [get_networks k sh org]). endpoint rq = OrgNetworks sh org"
      by (auto simp: get_networks_def)
    then show ?thesis by blast
  qed
  with True show ?thesis by auto
qed

text \<open>
  C5. A run whose options are complete and do not ask for \<open>ignore_error\<close>, that finds the
  organization and its shard, and whose lookup of the network name finds a network: the
  run prints the error that the network exists and ends with exit code 2. It has sent the
  three lookups and nothing else, so no request that creates a network and no request of
  enrollment.
\<close>

theorem existing_network_is_fatal:
  assumes opts: "main_opts opts default_arguments \<sigma>0 = (Inr a, \<sigma>)"
    and given: "arg_apikey a \<noteq> ''null''" "arg_orgname a \<noteq> ''null''" "arg_serial a \<noteq> ''null''"
      "arg_nwname a \<noteq> ''null''" "arg_template a \<noteq> ''null''"
    and mode: "arg_modexisting a \<noteq> ''ignore_error''"
    and org: "getorgid srv (arg_apikey a) (arg_orgname a) \<sigma> = (Inr orgid, \<sigma>1)" "orgid \<noteq> ''null''"
    and shard: "getshardurl srv (arg_apikey a) orgid \<sigma>1 = (Inr shardurl, \<sigma>2)" "shardurl \<noteq> ''null''"
    and nw: "getnwid srv (arg_apikey a) shardurl orgid (arg_nwname a) \<sigma>2 = (Inr nwid, \<sigma>3)"
      "nwid \<noteq> ''null''"
  shows "main srv (Some opts) \<sigma>0 =
           (Inl (SysExit 2),
            \<sigma>3\<lparr>stdout := stdout \<sigma> @ [''@ ERROR: Network with that name already exists'']\<rparr>) \<and>
         fresh \<sigma> \<sigma>3 =
           [\<lparr>meth = GET, endpoint = Organizations, data = [], header_key = arg_apikey a\<rparr>,
            \<lparr>meth = GET, endpoint = OrgSnmp orgid, data = [], header_key = arg_apikey a\<rparr>,
            get_networks (arg_apikey a) shardurl orgid] \<and>
         (\<forall>rq\<in>set (fresh \<sigma> \<sigma>3). \<not> is_create_network rq \<and> \<not> is_enrollment rq)"
proof -
  have s1: "\<sigma>1 = after srv \<lparr>meth = GET, endpoint = Organizations, data = [], header_key = arg_apikey a\<rparr> \<sigma>"
    using org(1) by (simp add: getorgid_apply)
  have s2: "\<sigma>2 = after srv \<lparr>meth = GET, endpoint = OrgSnmp orgid, data = [], header_key = arg_apikey a\<rparr> \<sigma>1"
    using shard(1) by (simp add: getshardurl_apply)
  have s3: "\<sigma>3 = after srv (get_networks (arg_apikey a) shardurl orgid) \<sigma>2"
    using nw(1) by (rule getnwid_state)
  have sent: "sent \<sigma>3 = sent \<sigma> @
           [\<lparr>meth = GET, endpoint = Organizations, data = [], header_key = arg_apikey a\<rparr>,
            \<lparr>meth = GET, endpoint = OrgSnmp orgid, data = [], header_key = arg_apikey a\<rparr>,
            get_networks (arg_apikey a) shardurl orgid]"
    by (simp add: s1 s2 s3)
  have out: "stdout \<sigma>3 = stdout \<sigma>"
    by (simp add: s1 s2 s3)
  have look: "main_lookup_network srv (arg_apikey a) shardurl orgid (arg_nwname a) True \<sigma>2 =
     (Inl (SysExit 2), \<sigma>3\<lparr>stdout := stdout \<sigma> @ [''@ ERROR: Network with that name already exists'']\<rparr>)"
    using main_lookup_network_found [OF nw, of True] by (simp add: out)
  have run: "main_run srv a \<sigma> =
     (Inl (SysExit 2), \<sigma>3\<lparr>stdout := stdout \<sigma> @ [''@ ERROR: Network with that name already exists'']\<rparr>)"
    using given mode org shard look by (simp add: main_run_def andthen_apply)
  have fr: "fresh \<sigma> \<sigma>3 =
           [\<lparr>meth = GET, endpoint = Organizations, data = [], header_key = arg_apikey a\<rparr>,
            \<lparr>meth = GET, endpoint = OrgSnmp orgid, data = [], header_key = arg_apikey a\<rparr>,
            get_networks (arg_apikey a) shardurl orgid]"
    using sent by (rule fresh_append)
  have "main srv (Some opts) \<sigma>0 = main_run srv a \<sigma>"
    using opts by (simp add: main_def andthen_apply)
  with run fr show ?thesis
    by (simp add: is_create_network_def is_enrollment_def get_networks_def)
qed

theorem existing_network_is_fatal_witness:
  "fst (main (testbed 200 200) (Some example_opts) (start example_network)) = Inl (SysExit 2) \<and>
   stdout (snd (main (testbed 200 200) (Some example_opts) (start example_network))) =
     [''@ ERROR: Network with that name already exists''] \<and>
   list_all (\<lambda>rq. meth rq = GET)
     (sent (snd (main (testbed 200 200) (Some example_opts) (start example_network))))"
proof -
  let ?T = "testbed 200 200"
  let ?\<sigma> = "start example_network"
  let ?\<sigma>1 = "snd (getorgid ?T ''1234'' ''Acme'' ?\<sigma>)"
  let ?\<sigma>2 = "snd (getshardurl ?T ''1234'' ''549236'' ?\<sigma>1)"
  let ?\<sigma>3 = "snd (getnwid ?T ''1234'' ''n7.meraki.com'' ''549236'' ''Branch1'' ?\<sigma>2)"
  have o: "main_opts example_opts default_arguments ?\<sigma> = (Inr example_arguments, ?\<sigma>)"
    by code_simp
  have "fst (getorgid ?T ''1234'' ''Acme'' ?\<sigma>) = Inr ''549236''" by code_simp
  then have h1: "getorgid ?T (arg_apikey example_arguments) (arg_orgname example_arguments) ?\<sigma> =
      (Inr ''549236'', ?\<sigma>1)"
    by (simp add: prod_eq_iff example_arguments_def)
  have "fst (getshardurl ?T ''1234'' ''549236'' ?\<sigma>1) = Inr ''n7.meraki.com''" by code_simp
  then have h2: "getshardurl ?T (arg_apikey example_arguments) ''549236'' ?\<sigma>1 =
      (Inr ''n7.meraki.com'', ?\<sigma>2)"
    by (simp add: prod_eq_iff example_arguments_def)
  have "fst (getnwid ?T ''1234'' ''n7.meraki.com'' ''549236'' ''Branch1'' ?\<sigma>2) = Inr ''N_9''"
    by code_simp
  then have h3: "getnwid ?T (arg_apikey example_arguments) ''n7.meraki.com'' ''549236''
      (arg_nwname example_arguments) ?\<sigma>2 = (Inr ''N_9'', ?\<sigma>3)"
    by (simp add: prod_eq_iff example_arguments_def)
  have s: "sent ?\<sigma> = []" "stdout ?\<sigma> = []" by (simp_all add: start_def)
  from existing_network_is_fatal [OF o _ _ _ _ _ _ h1 _ h2 _ h3]
  have "main ?T (Some example_opts) ?\<sigma> =
           (Inl (SysExit 2), ?\<sigma>3\<lparr>stdout := stdout ?\<sigma> @ [''@ ERROR: Network with that name already exists'']\<rparr>) \<and>
         fresh ?\<sigma> ?\<sigma>3 =
           [\<lparr>meth = GET, endpoint = Organizations, data = [], header_key = arg_apikey example_arguments\<rparr>,
            \<lparr>meth = GET, endpoint = OrgSnmp ''549236'', data = [], header_key = arg_apikey example_arguments\<rparr>,
            get_networks (arg_apikey example_arguments) ''n7.meraki.com'' ''549236'']"
    by (simp add: example_arguments_def)
  then show ?thesis
    by (simp add: fresh_def s get_networks_def)
qed



section \<open>Enrollment and binding\<close>

lemma main_enroll_device_sent:
  "main_enroll_device srv k sh nw addr s \<sigma> = (r, \<sigma>') \<Longrightarrow>
   \<exists>new. sent \<sigma>' = sent \<sigma> @ new \<and>
     (\<forall>rq\<in>set new. endpoint rq = NetworkDevicesClaim sh nw \<or> endpoint rq = NetworkDevice sh nw s)"
  by (auto simp: main_enroll_device_def andthen_apply claimdevice_apply getdeviceinfo_apply
      setdevicedata_apply Let_def split: sum.splits if_splits)

lemma main_enroll_devices_sent:
  "main_enroll_devices srv k sh nw addr vs \<sigma> = (r, \<sigma>') \<Longrightarrow>
   \<exists>new. sent \<sigma>' = sent \<sigma> @ new \<and>
     (\<forall>rq\<in>set new. endpoint rq = NetworkDevicesClaim sh nw \<or>
                     (\<exists>s\<in>set vs. endpoint rq = NetworkDevice sh nw s))"
proof (induction vs arbitrary: \<sigma>)
  case Nil
  then show ?case by simp
next
  case (Cons s vs)
  obtain x \<sigma>a where one: "main_enroll_device srv k sh nw addr s \<sigma> = (x, \<sigma>a)"
    by (cases "main_enroll_device srv k sh nw addr s \<sigma>")
  from main_enroll_device_sent [OF one] obtain new1 where
    n1: "sent \<sigma>a = sent \<sigma> @ new1"
    "\<forall>rq\<in>set new1. endpoint rq = NetworkDevicesClaim sh nw \<or> endpoint rq = NetworkDevice sh nw s"
    by blast
  show ?case
  proof (cases x)
    case (Inl e)
    with Cons.prems one have "\<sigma>' = \<sigma>a"
      by (simp add: andthen_apply)
    with n1 show ?thesis by auto
  next
    case (Inr u)
    with Cons.prems one have "main_enroll_devices srv k sh nw addr vs \<sigma>a = (r, \<sigma>')"
      by (simp add: andthen_apply)
    from Cons.IH [OF this] obtain new2 where
      n2: "sent \<sigma>' = sent \<sigma>a @ new2"
      "\<forall>rq\<in>set new2. endpoint rq = NetworkDevicesClaim sh nw \<or>
                       (\<exists>s\<in>set vs. endpoint rq = NetworkDevice sh nw s)"
      by blast
    have "sent \<sigma>' = sent \<sigma> @ (new1 @ new2)"
      using n1 n2 by simp
    moreover have "\<forall>rq\<in>set (new1 @ new2). endpoint rq = NetworkDevicesClaim sh nw \<or>
        (\<exists>t\<in>set (s # vs). endpoint rq = NetworkDevice sh nw t)"
      using n1(2) n2(2) by auto
    ultimately show ?thesis by blast
  qed
qed

lemma main_bind_apply:
  "main_bind srv k sh nw t dt stop \<sigma> =
     (if status_code (reply srv (post_bind k sh nw t (ms dt)) \<sigma>) \<noteq> codes_ok \<and> stop
      then (Inl (SysExit 2), (after srv (post_bind k sh nw t (ms dt)) \<sigma>)
              \<lparr>stdout := stdout \<sigma> @ [''@ ERROR: Unable to bind network to template'']\<rparr>)
      else (Inr (), (after srv (post_bind k sh nw t (ms dt)) \<sigma>)
              \<lparr>stdout := stdout \<sigma> @ [''@ End of script.'']\<rparr>))"
  by (simp add: main_bind_def andthen_apply bindnw_apply)

lemma main_bind_sent:
  "main_bind srv k sh nw t dt stop \<sigma> = (r, \<sigma>') \<Longrightarrow> sent \<sigma>' = sent \<sigma> @ [post_bind k sh nw t (ms dt)]"
  by (auto simp: main_bind_apply split: if_splits)

lemma is_bind_post_bind [simp]: "is_bind (post_bind k sh nw t ab)"
  by (simp add: is_bind_def post_bind_def)

lemma not_bind_networks: "endpoint rq = OrgNetworks sh org \<Longrightarrow> \<not> is_bind rq"
  by (simp add: is_bind_def)

lemma not_bind_enrollment: "is_enrollment rq \<Longrightarrow> \<not> is_bind rq"
  by (auto simp: is_bind_def is_enrollment_def split: url.splits)

lemma not_create_enrollment: "is_enrollment rq \<Longrightarrow> \<not> is_create_network rq"
  by (auto simp: is_create_network_def is_enrollment_def split: url.splits)

text \<open>
  A run of the last part of \<^verbatim>\<open>main\<close> either stops before the bind request, or reaches
  it; before it, only requests to the networks URL and requests of enrollment are sent, and
  only requests of enrollment when the first lookup had found the network.
\<close>

lemma main_deploy_cases:
  assumes run: "main_deploy srv a stop orgid sh nwid tid serials models \<sigma> = (r, \<sigma>')"
  shows "(\<exists>new. sent \<sigma>' = sent \<sigma> @ new \<and>
           (\<forall>rq\<in>set new. endpoint rq = OrgNetworks sh orgid \<or> is_enrollment rq) \<and>
           (nwid \<noteq> ''null'' \<longrightarrow> (\<forall>rq\<in>set new. is_enrollment rq)) \<and> (\<exists>e. r = Inl e)) \<or>
         (\<exists>nwid' \<sigma>b new. sent \<sigma>b = sent \<sigma> @ new \<and>
           (\<forall>rq\<in>set new. endpoint rq = OrgNetworks sh orgid \<or> is_enrollment rq) \<and>
           (nwid \<noteq> ''null'' \<longrightarrow> nwid' = nwid \<and> (\<forall>rq\<in>set new. is_enrollment rq)) \<and>
           main_bind srv (arg_apikey a) sh nwid' tid (main_devicetypes models) stop \<sigma>b = (r, \<sigma>'))"
proof -
  let ?p = "main_nwparams a orgid (main_nwtypestring (main_devicetypes models))"
  obtain x \<sigma>1 where c: "main_create_network srv (arg_apikey a) sh orgid ?p (arg_nwname a) nwid \<sigma> = (x, \<sigma>1)"
    by (cases "main_create_network srv (arg_apikey a) sh orgid ?p (arg_nwname a) nwid \<sigma>")
  from main_create_network_sent [OF c] obtain new1 where
    n1: "sent \<sigma>1 = sent \<sigma> @ new1" "\<forall>rq\<in>set new1. endpoint rq = OrgNetworks sh orgid"
      "nwid \<noteq> ''null'' \<longrightarrow> new1 = []"
    by blast
  show ?thesis
  proof (cases x)
    case (Inl e)
    with run c have "\<sigma>' = \<sigma>1" "r = Inl e"
      by (simp_all add: main_deploy_def andthen_apply Let_def)
    with n1 show ?thesis by auto
  next
    case (Inr nwid')
    have keep: "nwid \<noteq> ''null'' \<longrightarrow> nwid' = nwid"
      using c Inr by (auto simp: main_create_network_def)
    show ?thesis
    proof (cases "main_validserials serials models")
      case (Inl e)
      with run c \<open>x = Inr nwid'\<close> have "\<sigma>' = \<sigma>1" "r = Inl e"
        by (simp_all add: main_deploy_def andthen_apply Let_def)
      with n1 show ?thesis by auto
    next
      case vs: (Inr vs)
      obtain y \<sigma>2 where e: "main_enroll_devices srv (arg_apikey a) sh nwid' (arg_address a) vs \<sigma>1 = (y, \<sigma>2)"
        by (cases "main_enroll_devices srv (arg_apikey a) sh nwid' (arg_address a) vs \<sigma>1")
      from main_enroll_devices_sent [OF e] obtain new2 where
        n2a: "sent \<sigma>2 = sent \<sigma>1 @ new2" and
        n2b: "\<forall>rq\<in>set new2. endpoint rq = NetworkDevicesClaim sh nwid' \<or>
               (\<exists>s\<in>set vs. endpoint rq = NetworkDevice sh nwid' s)"
        by blast
      have n2c: "\<forall>rq\<in>set new2. is_enrollment rq"
        using n2b by (auto simp: is_enrollment_def)
      have s2: "sent \<sigma>2 = sent \<sigma> @ (new1 @ new2)"
        using n1 n2a by simp
      have p2: "\<forall>rq\<in>set (new1 @ new2). endpoint rq = OrgNetworks sh orgid \<or> is_enrollment rq"
        using n1 n2c by auto
      have q2: "nwid \<noteq> ''null'' \<longrightarrow> (\<forall>rq\<in>set (new1 @ new2). is_enrollment rq)"
        using n1 n2c by auto
      show ?thesis
      proof (cases y)
        case (Inl e')
        with run c \<open>x = Inr nwid'\<close> vs e have "\<sigma>' = \<sigma>2" "r = Inl e'"
          by (simp_all add: main_deploy_def andthen_apply Let_def)
        with s2 p2 q2 show ?thesis by blast
      next
        case (Inr u)
        with run c \<open>x = Inr nwid'\<close> vs e
        have "main_bind srv (arg_apikey a) sh nwid' tid (main_devicetypes models) stop \<sigma>2 = (r, \<sigma>')"
          by (simp add: main_deploy_def andthen_apply Let_def)
        with s2 p2 q2 keep show ?thesis by blast
      qed
    qed
  qed
qed

lemma main_deploy_existing:
  assumes run: "main_deploy srv a stop orgid sh nwid tid serials models \<sigma> = (r, \<sigma>')"
    and found: "nwid \<noteq> ''null''"
  shows "\<forall>rq\<in>set (fresh \<sigma> \<sigma>'). \<not> is_create_network rq \<and>
           (is_bind rq \<longrightarrow> endpoint rq = NetworkBind sh nwid)"
proof -
  from main_deploy_cases [OF run] found
  consider (early) new where "sent \<sigma>' = sent \<sigma> @ new" "\<forall>rq\<in>set new. is_enrollment rq"
    | (bind) \<sigma>b new where "sent \<sigma>b = sent \<sigma> @ new" "\<forall>rq\<in>set new. is_enrollment rq"
      "main_bind srv (arg_apikey a) sh nwid tid (main_devicetypes models) stop \<sigma>b = (r, \<sigma>')"
    by blast
  then show ?thesis
  proof cases
    case early
    from early(1) have "fresh \<sigma> \<sigma>' = new" by (rule fresh_append)
    with early(2) show ?thesis
      by (auto dest: not_create_enrollment not_bind_enrollment)
  next
    case bind
    let ?B = "post_bind (arg_apikey a) sh nwid tid (ms (main_devicetypes models))"
    from main_bind_sent [OF bind(3)] bind(1) have "sent \<sigma>' = sent \<sigma> @ (new @ [?B])"
      by simp
    then have f: "fresh \<sigma> \<sigma>' = new @ [?B]" by (rule fresh_append)
    have b: "\<not> is_create_network ?B" "endpoint ?B = NetworkBind sh nwid"
      by (simp_all add: post_bind_def is_create_network_def)
    show ?thesis
      using bind(2) b by (auto simp: f dest: not_create_enrollment not_bind_enrollment)
  qed
qed

text \<open>
  C6. Provisioning without the stop on an existing network (\<open>-m ignore_error\<close>). When the
  lookup finds a network of the name, provisioning gives its id and sends the lookup and
  nothing else, and the rest of \<^verbatim>\<open>main\<close> sends no request that creates a network and
  binds the network of that id. When a listing asked again at once gives the same answer,
  provisioning run a second time, after a first run that gave an id, gives the same id and
  sends the lookup alone; the two runs together send at most one request that creates a
  network.
\<close>

theorem provisioning_idempotent:
  assumes same: "\<forall>w. fst (srv (snd (srv w (get_networks k sh org))) (get_networks k sh org)) =
                     fst (srv w (get_networks k sh org))"
  shows "(getnwid srv k sh org n \<sigma> = (Inr nwid, \<sigma>') \<and> nwid \<noteq> ''null'' \<longrightarrow>
            provision_network srv k sh org p n False \<sigma> = (Inr nwid, \<sigma>') \<and>
            fresh \<sigma> \<sigma>' = [get_networks k sh org]) \<and>
         (nwid \<noteq> ''null'' \<and> main_deploy srv a stop org sh nwid tid serials models \<sigma> = (r, \<sigma>') \<longrightarrow>
            (\<forall>rq\<in>set (fresh \<sigma> \<sigma>'). \<not> is_create_network rq \<and>
               (is_bind rq \<longrightarrow> endpoint rq = NetworkBind sh nwid))) \<and>
         (provision_network srv k sh org p n False \<sigma> = (Inr nwid, \<tau>) \<longrightarrow>
            provision_network srv k sh org p n False \<tau> = (Inr nwid, after srv (get_networks k sh org) \<tau>) \<and>
            fresh \<tau> (after srv (get_networks k sh org) \<tau>) = [get_networks k sh org] \<and>
            length (filter is_create_network (fresh \<sigma> (after srv (get_networks k sh org) \<tau>))) \<le> 1)"
proof (intro conjI impI)
  assume a: "getnwid srv k sh org n \<sigma> = (Inr nwid, \<sigma>') \<and> nwid \<noteq> ''null''"
  then show "provision_network srv k sh org p n False \<sigma> = (Inr nwid, \<sigma>')"
    by (simp add: provision_found)
  from a have "\<sigma>' = after srv (get_networks k sh org) \<sigma>"
    by (simp add: getnwid_apply)
  then show "fresh \<sigma> \<sigma>' = [get_networks k sh org]"
    by (simp add: fresh_def)
next
  assume "nwid \<noteq> ''null'' \<and> main_deploy srv a stop org sh nwid tid serials models \<sigma> = (r, \<sigma>')"
  then show "\<forall>rq\<in>set (fresh \<sigma> \<sigma>'). \<not> is_create_network rq \<and>
               (is_bind rq \<longrightarrow> endpoint rq = NetworkBind sh nwid)"
    using main_deploy_existing by blast
next
  let ?G = "get_networks k sh org"
  assume run: "provision_network srv k sh org p n False \<sigma> = (Inr nwid, \<tau>)"
  from provision_last [OF run] obtain \<sigma>c new where
    last: "getnwid srv k sh org n \<sigma>c = (Inr nwid, \<tau>)" and nn: "nwid \<noteq> ''null''"
    and sent: "sent \<sigma>c = sent \<sigma> @ new" and cnt: "length (filter is_create_network new) \<le> 1"
    by blast
  have s1: "\<tau> = after srv ?G \<sigma>c"
    using last by (rule getnwid_state)
  have "reply srv ?G \<tau> = reply srv ?G \<sigma>c"
    using same by (simp add: s1 reply_def)
  with last have again: "getnwid srv k sh org n \<tau> = (Inr nwid, after srv ?G \<tau>)"
    by (auto simp: getnwid_apply split: if_splits)
  show "provision_network srv k sh org p n False \<tau> = (Inr nwid, after srv ?G \<tau>)"
    using again nn by (rule provision_found)
  show "fresh \<tau> (after srv ?G \<tau>) = [?G]"
    by (simp add: fresh_def)
  have "sent (after srv ?G \<tau>) = sent \<sigma> @ (new @ [?G, ?G])"
    by (simp add: s1 sent)
  then have "fresh \<sigma> (after srv ?G \<tau>) = new @ [?G, ?G]"
    by (rule fresh_append)
  with cnt show "length (filter is_create_network (fresh \<sigma> (after srv ?G \<tau>))) \<le> 1"
    by simp
qed

theorem provisioning_idempotent_witness:
  "provision_network (testbed 200 200) ''1234'' ''n7.meraki.com'' ''549236''
     (main_nwparams example_arguments ''549236'' ''wireless switch '') ''Branch1'' False
     (start example_network) =
     (Inr ''N_9'', after (testbed 200 200) (get_networks ''1234'' ''n7.meraki.com'' ''549236'')
                     (start example_network)) \<and>
   list_all (\<lambda>rq. \<not> is_create_network rq)
     (sent (snd (main_deploy (testbed 200 200) example_arguments False ''549236'' ''n7.meraki.com'' ''N_9''
        ''T_1'' [''MR34-AAAA'', ''MS120-BBBB''] [''MR34'', ''MS120''] (start example_network)))) \<and>
   fst (provision_network (testbed 200 200) ''1234'' ''n7.meraki.com'' ''549236''
     (main_nwparams example_arguments ''549236'' ''wireless switch '') ''Branch1'' False (start [])) =
     Inr ''N_Branch1'' \<and>
   fst (provision_network (testbed 200 200) ''1234'' ''n7.meraki.com'' ''549236''
     (main_nwparams example_arguments ''549236'' ''wireless switch '') ''Branch1'' False
       (snd (provision_network (testbed 200 200) ''1234'' ''n7.meraki.com'' ''549236''
         (main_nwparams example_arguments ''549236'' ''wireless switch '') ''Branch1'' False (start [])))) =
     Inr ''N_Branch1'' \<and>
   length (filter is_create_network
     (sent (snd (provision_network (testbed 200 200) ''1234'' ''n7.meraki.com'' ''549236''
       (main_nwparams example_arguments ''549236'' ''wireless switch '') ''Branch1'' False
       (snd (provision_network (testbed 200 200) ''1234'' ''n7.meraki.com'' ''549236''
         (main_nwparams example_arguments ''549236'' ''wireless switch '') ''Branch1'' False
         (start []))))))) = 1"
proof -
  let ?T = "testbed 200 200"
  let ?G = "get_networks ''1234'' ''n7.meraki.com'' ''549236''"
  let ?p = "main_nwparams example_arguments ''549236'' ''wireless switch ''"
  let ?run = "\<lambda>\<sigma>. provision_network ?T ''1234'' ''n7.meraki.com'' ''549236'' ?p ''Branch1'' False \<sigma>"
  let ?D = "main_deploy ?T example_arguments False ''549236'' ''n7.meraki.com'' ''N_9''
        ''T_1'' [''MR34-AAAA'', ''MS120-BBBB''] [''MR34'', ''MS120''] (start example_network)"
  have same: "\<forall>w. fst (?T (snd (?T w ?G)) ?G) = fst (?T w ?G)"
    by (simp add: get_networks_def)
  have "fst (getnwid ?T ''1234'' ''n7.meraki.com'' ''549236'' ''Branch1'' (start example_network)) = Inr ''N_9''"
    by code_simp
  then have found: "getnwid ?T ''1234'' ''n7.meraki.com'' ''549236'' ''Branch1'' (start example_network) =
      (Inr ''N_9'', after ?T ?G (start example_network))"
    by (simp add: getnwid_apply)
  have f1: "fst (?run (start [])) = Inr ''N_Branch1''"
    by code_simp
  then have first: "?run (start []) = (Inr ''N_Branch1'', snd (?run (start [])))"
    by (simp add: prod_eq_iff)
  have cnt: "length (filter is_create_network (sent (snd (?run (snd (?run (start []))))))) = 1"
    by code_simp
  have d: "?D = (fst ?D, snd ?D)"
    by simp
  from provisioning_idempotent [where srv = ?T and k = "''1234''" and sh = "''n7.meraki.com''"
      and org = "''549236''" and n = "''Branch1''" and \<sigma> = "start example_network" and nwid = "''N_9''"
      and \<sigma>' = "after ?T ?G (start example_network)" and p = ?p] same found
  have exists: "?run (start example_network) = (Inr ''N_9'', after ?T ?G (start example_network))"
    by simp
  from provisioning_idempotent [where srv = ?T and k = "''1234''" and sh = "''n7.meraki.com''"
      and org = "''549236''" and \<sigma> = "start example_network" and nwid = "''N_9''"
      and a = example_arguments and stop = False and tid = "''T_1''"
      and serials = "[''MR34-AAAA'', ''MS120-BBBB'']" and models = "[''MR34'', ''MS120'']"
      and r = "fst ?D" and \<sigma>' = "snd ?D"] same d
  have nocreate: "list_all (\<lambda>rq. \<not> is_create_network rq) (sent (snd ?D))"
    by (simp add: fresh_def start_def list_all_iff)
  from provisioning_idempotent [where srv = ?T and k = "''1234''" and sh = "''n7.meraki.com''"
      and org = "''549236''" and n = "''Branch1''" and \<sigma> = "start []" and nwid = "''N_Branch1''"
      and \<tau> = "snd (?run (start []))" and p = ?p] same first
  have twice: "?run (snd (?run (start []))) = (Inr ''N_Branch1'', after ?T ?G (snd (?run (start []))))"
    by simp
  show ?thesis
  proof (intro conjI)
    show "?run (start example_network) = (Inr ''N_9'', after ?T ?G (start example_network))"
      by (rule exists)
    show "list_all (\<lambda>rq. \<not> is_create_network rq) (sent (snd ?D))"
      by (rule nocreate)
    show "fst (?run (start [])) = Inr ''N_Branch1''"
      by (rule f1)
    show "fst (?run (snd (?run (start [])))) = Inr ''N_Branch1''"
      using twice by simp
    show "length (filter is_create_network (sent (snd (?run (snd (?run (start []))))))) = 1"
      by (rule cnt)
  qed
qed

text \<open>
  C4. In the last part of a run, from the creation of the network to the bind request:
  every bind request that the run sends carries \<open>autoBind\<close> \<open>true\<close> when some model of
  the batch begins with MS and \<open>false\<close> otherwise, and a run that ends without an error
  has sent a bind request.
\<close>

theorem autobind_iff_switch:
  assumes run: "main_deploy srv a stop orgid sh nwid tid serials models \<sigma> = (r, \<sigma>')"
  shows "(\<forall>rq\<in>set (fresh \<sigma> \<sigma>'). is_bind rq \<longrightarrow>
            data rq = [(''configTemplateId'', tid),
                       (''autoBind'', if (\<exists>x\<in>set models. take 2 x = ''MS'') then ''true'' else ''false'')]) \<and>
         (r = Inr () \<longrightarrow> (\<exists>rq\<in>set (fresh \<sigma> \<sigma>'). is_bind rq))"
proof -
  from main_deploy_cases [OF run]
  consider (early) new e where "sent \<sigma>' = sent \<sigma> @ new"
      "\<forall>rq\<in>set new. endpoint rq = OrgNetworks sh orgid \<or> is_enrollment rq" "r = Inl e"
    | (bind) nwid' \<sigma>b new where "sent \<sigma>b = sent \<sigma> @ new"
      "\<forall>rq\<in>set new. endpoint rq = OrgNetworks sh orgid \<or> is_enrollment rq"
      "main_bind srv (arg_apikey a) sh nwid' tid (main_devicetypes models) stop \<sigma>b = (r, \<sigma>')"
    by blast
  then show ?thesis
  proof cases
    case early
    from early(1) have "fresh \<sigma> \<sigma>' = new" by (rule fresh_append)
    with early(2,3) show ?thesis
      by (auto dest: not_bind_networks not_bind_enrollment)
  next
    case bind
    let ?B = "post_bind (arg_apikey a) sh nwid' tid (ms (main_devicetypes models))"
    from main_bind_sent [OF bind(3)] bind(1) have "sent \<sigma>' = sent \<sigma> @ (new @ [?B])"
      by simp
    then have f: "fresh \<sigma> \<sigma>' = new @ [?B]" by (rule fresh_append)
    have d: "data ?B = [(''configTemplateId'', tid),
                       (''autoBind'', if (\<exists>x\<in>set models. take 2 x = ''MS'') then ''true'' else ''false'')]"
      by (simp add: post_bind_def main_devicetypes_ms)
    have "\<forall>rq\<in>set new. \<not> is_bind rq"
      using bind(2) by (auto dest: not_bind_networks not_bind_enrollment)
    with f d show ?thesis by auto
  qed
qed

theorem autobind_iff_switch_witness:
  "fst (main_deploy (testbed 200 200) example_arguments True ''549236'' ''n7.meraki.com'' ''null'' ''T_1''
          [''MR34-AAAA'', ''MS120-BBBB''] [''MR34'', ''MS120''] (start [])) = Inr () \<and>
   filter is_bind (fresh (start [])
       (snd (main_deploy (testbed 200 200) example_arguments True ''549236'' ''n7.meraki.com'' ''null'' ''T_1''
          [''MR34-AAAA'', ''MS120-BBBB''] [''MR34'', ''MS120''] (start [])))) \<noteq> [] \<and>
   list_all (\<lambda>rq. data rq = [(''configTemplateId'', ''T_1''), (''autoBind'', ''true'')])
     (filter is_bind (fresh (start [])
       (snd (main_deploy (testbed 200 200) example_arguments True ''549236'' ''n7.meraki.com'' ''null'' ''T_1''
          [''MR34-AAAA'', ''MS120-BBBB''] [''MR34'', ''MS120''] (start [])))))"
proof -
  let ?X = "main_deploy (testbed 200 200) example_arguments True ''549236'' ''n7.meraki.com'' ''null'' ''T_1''
          [''MR34-AAAA'', ''MS120-BBBB''] [''MR34'', ''MS120''] (start [])"
  have ok: "fst ?X = Inr ()" by code_simp
  have run: "?X = (fst ?X, snd ?X)" by simp
  from autobind_iff_switch [OF run] ok show ?thesis
    by (simp add: list_all_iff filter_empty_conv)
qed

text \<open>
  C9. A run that reaches the bind request (the network is there, the serials to enroll
  are computed and enrolled) and whose bind request is answered with a status other than
  200: when \<open>-m ignore_error\<close> was not given the run prints that it is unable to bind and
  ends with exit code 2, and when it was given the run prints its last line and ends
  normally. So the failed bind ends the run with exit code 2 exactly when \<open>ignore_error\<close>
  was not given.
\<close>

theorem bind_failure_fatal_unless_ignored:
  assumes created: "main_create_network srv (arg_apikey a) sh orgid
                      (main_nwparams a orgid (main_nwtypestring (main_devicetypes models)))
                      (arg_nwname a) nwid \<sigma> = (Inr nwid', \<sigma>1)"
    and valid: "main_validserials serials models = Inr validserials"
    and enrolled: "main_enroll_devices srv (arg_apikey a) sh nwid' (arg_address a) validserials \<sigma>1 =
                     (Inr (), \<sigma>2)"
    and failed: "status_code (reply srv (post_bind (arg_apikey a) sh nwid' tid
                                (ms (main_devicetypes models))) \<sigma>2) \<noteq> codes_ok"
  shows "main_deploy srv a (arg_modexisting a \<noteq> ''ignore_error'') orgid sh nwid tid serials models \<sigma> =
           (if arg_modexisting a \<noteq> ''ignore_error''
            then (Inl (SysExit 2),
                  (after srv (post_bind (arg_apikey a) sh nwid' tid (ms (main_devicetypes models))) \<sigma>2)
                    \<lparr>stdout := stdout \<sigma>2 @ [''@ ERROR: Unable to bind network to template'']\<rparr>)
            else (Inr (),
                  (after srv (post_bind (arg_apikey a) sh nwid' tid (ms (main_devicetypes models))) \<sigma>2)
                    \<lparr>stdout := stdout \<sigma>2 @ [''@ End of script.'']\<rparr>)) \<and>
         (fst (main_deploy srv a (arg_modexisting a \<noteq> ''ignore_error'') orgid sh nwid tid serials models \<sigma>) =
            Inl (SysExit 2) \<longleftrightarrow> arg_modexisting a \<noteq> ''ignore_error'')"
proof -
  have "main_deploy srv a stop orgid sh nwid tid serials models \<sigma> =
          main_bind srv (arg_apikey a) sh nwid' tid (main_devicetypes models) stop \<sigma>2" for stop
    using created valid enrolled by (simp add: main_deploy_def Let_def andthen_apply)
  then show ?thesis
    using failed by (simp add: main_bind_apply)
qed

theorem bind_failure_fatal_unless_ignored_witness:
  "fst (main_deploy (testbed 200 400) example_arguments True ''549236'' ''n7.meraki.com'' ''null'' ''T_1''
          [''MR34-AAAA'', ''MS120-BBBB''] [''MR34'', ''MS120''] (start [])) = Inl (SysExit 2) \<and>
   fst (main_deploy (testbed 200 400) (example_arguments\<lparr>arg_modexisting := ''ignore_error''\<rparr>) False
          ''549236'' ''n7.meraki.com'' ''null'' ''T_1''
          [''MR34-AAAA'', ''MS120-BBBB''] [''MR34'', ''MS120''] (start [])) = Inr ()"
proof -
  let ?T = "testbed 200 400"
  let ?a = "example_arguments"
  let ?b = "example_arguments\<lparr>arg_modexisting := ''ignore_error''\<rparr>"
  let ?models = "[''MR34'', ''MS120'']"
  let ?p = "main_nwparams ?a ''549236'' (main_nwtypestring (main_devicetypes ?models))"
  let ?c = "main_create_network ?T ''1234'' ''n7.meraki.com'' ''549236'' ?p ''Branch1'' ''null'' (start [])"
  have "fst ?c = Inr ''N_Branch1''" by code_simp
  then have c: "?c = (Inr ''N_Branch1'', snd ?c)" by (simp add: prod_eq_iff)
  have ca: "main_create_network ?T (arg_apikey ?a) ''n7.meraki.com'' ''549236''
      (main_nwparams ?a ''549236'' (main_nwtypestring (main_devicetypes ?models))) (arg_nwname ?a)
      ''null'' (start []) = (Inr ''N_Branch1'', snd ?c)"
    using c by (simp add: example_arguments_def)
  have cb: "main_create_network ?T (arg_apikey ?b) ''n7.meraki.com'' ''549236''
      (main_nwparams ?b ''549236'' (main_nwtypestring (main_devicetypes ?models))) (arg_nwname ?b)
      ''null'' (start []) = (Inr ''N_Branch1'', snd ?c)"
    using c by (simp add: example_arguments_def main_nwparams_def)
  have v: "main_validserials [''MR34-AAAA'', ''MS120-BBBB''] ?models = Inr []"
    by code_simp
  have ea: "main_enroll_devices ?T (arg_apikey ?a) ''n7.meraki.com'' ''N_Branch1'' (arg_address ?a) []
      (snd ?c) = (Inr (), snd ?c)"
    by simp
  have eb: "main_enroll_devices ?T (arg_apikey ?b) ''n7.meraki.com'' ''N_Branch1'' (arg_address ?b) []
      (snd ?c) = (Inr (), snd ?c)"
    by simp
  have fa: "status_code (reply ?T (post_bind (arg_apikey ?a) ''n7.meraki.com'' ''N_Branch1'' ''T_1''
      (ms (main_devicetypes ?models))) (snd ?c)) \<noteq> codes_ok"
    by (simp add: reply_def post_bind_def codes_ok_def)
  have fb: "status_code (reply ?T (post_bind (arg_apikey ?b) ''n7.meraki.com'' ''N_Branch1'' ''T_1''
      (ms (main_devicetypes ?models))) (snd ?c)) \<noteq> codes_ok"
    by (simp add: reply_def post_bind_def codes_ok_def)
  from bind_failure_fatal_unless_ignored [OF ca v ea fa] bind_failure_fatal_unless_ignored [OF cb v eb fb]
  show ?thesis
    by (simp add: example_arguments_def)
qed

text \<open>
  C1. Every device whose model begins with MX, Z1, MS or MR is to be claimed into the
  network, checked and named. The code keeps for enrollment the serials whose whole model
  is \<open>mr\<close>, \<open>ms\<close> or \<open>mx\<close> (line 355), so a device of model MR34 or MS120 is left out. The
  run below, with the two serials of the scenario and no network to begin with, finds the
  models MR34 and MS120, sets the flags of access point and switch, keeps no serial for
  enrollment, ends normally and has sent no request of enrollment.
\<close>

theorem recognized_devices_are_not_enrolled:
  "fst (main_claim_serials (testbed 200 200) ''1234'' ''n7.meraki.com'' ''549236''
          [''MR34-AAAA'', ''MS120-BBBB''] [] (start [])) = Inr [''MR34'', ''MS120''] \<and>
   main_devicetypes [''MR34'', ''MS120''] = \<lparr>mx = False, ms = True, mr = True\<rparr> \<and>
   main_validserials [''MR34-AAAA'', ''MS120-BBBB''] [''MR34'', ''MS120''] = Inr [] \<and>
   fst (main (testbed 200 200) (Some example_opts) (start [])) = Inr () \<and>
   filter is_enrollment (sent (snd (main (testbed 200 200) (Some example_opts) (start [])))) = []"
  by code_simp

end
